theory Spec2Isabelle
  imports Main "HOL-Library.Word"
begin

section \<open>Time, durations and errors\<close>

text \<open>
  Go's \<open>time.Duration\<close> is a count of nanoseconds in a signed 64-bit integer and
  \<open>time.Time\<close> an instant; both are integers here (nanoseconds). The only arithmetic
  the modelled code does on durations is in \<open>calculateRetryInterval\<close>, where every
  intermediate value is shown to stay far inside the 64-bit range
  (lemma \<open>calculateRetryInterval_int64\<close>).
\<close>

type_synonym Duration = int
type_synonym Time = int

definition Second :: Duration where
  "Second = 1000000000"

definition Minute :: Duration where
  "Minute = 60 * Second"

definition Hour :: Duration where
  "Hour = 60 * Minute"

text \<open>
  Go errors are values. The sentinel errors of the source-handler package are
  constructors of their own, since \<open>errors.Is\<close> compares them by identity;
  \<open>ErrorString\<close> is \<open>fmt.Errorf\<close> or \<open>errors.New\<close> without a wrapped cause,
  \<open>WrapError p e\<close> is \<open>fmt.Errorf(p + "%w", e)\<close>, \<open>StatusError code msg\<close> is an
  error of the cluster API (code 404 is NotFound), and \<open>SourceHandlerError\<close> is the
  struct of that name (every construction site of the source passes a non-nil cause).
\<close>

datatype error =
    ErrorString string
  | WrapError string error
  | ErrSourceNotFound
  | ErrInvalidData
  | ErrValidationFailed
  | ErrUnsupportedFormat
  | SourceHandlerError string string string error
  | StatusError nat string

fun Error :: "error \<Rightarrow> string" where
  "Error (ErrorString s) = s"
| "Error (WrapError p e) = p @ Error e"
| "Error ErrSourceNotFound = ''source not found''"
| "Error ErrInvalidData = ''invalid data format''"
| "Error ErrValidationFailed = ''validation failed''"
| "Error ErrUnsupportedFormat = ''unsupported format''"
| "Error (SourceHandlerError sourceType operation reason e) =
     sourceType @ '' source '' @ operation @ '' failed: '' @ reason @ '': '' @ Error e"
| "Error (StatusError code msg) = msg"

text \<open>\<open>Unwrap\<close> of the standard library, and \<open>errors.Is\<close> along the chain of causes.\<close>

fun Unwrap :: "error \<Rightarrow> error option" where
  "Unwrap (WrapError p e) = Some e"
| "Unwrap (SourceHandlerError sourceType operation reason e) = Some e"
| "Unwrap e = None"

fun errors_Is :: "error \<Rightarrow> error \<Rightarrow> bool" where
  "errors_Is (WrapError p e) target = (WrapError p e = target \<or> errors_Is e target)"
| "errors_Is (SourceHandlerError a b c e) target =
     (SourceHandlerError a b c e = target \<or> errors_Is e target)"
| "errors_Is e target = (e = target)"

text \<open>\<open>apierrors.IsNotFound\<close>: the cause chain holds an API error with code 404.\<close>

fun IsNotFound :: "error \<Rightarrow> bool" where
  "IsNotFound (StatusError code msg) = (code = 404)"
| "IsNotFound (WrapError p e) = IsNotFound e"
| "IsNotFound (SourceHandlerError a b c e) = IsNotFound e"
| "IsNotFound e = False"

section \<open>The MCPRegistry resource\<close>

text \<open>
  \<open>MCPRegistryPhase\<close> is a string type in the source, so a phase can also be the empty
  string of a declaration that was never reconciled, or \<open>Terminating\<close>.
\<close>

type_synonym MCPRegistryPhase = string

definition MCPRegistryPhasePending :: MCPRegistryPhase where
  "MCPRegistryPhasePending = ''Pending''"

definition MCPRegistryPhaseSyncing :: MCPRegistryPhase where
  "MCPRegistryPhaseSyncing = ''Syncing''"

definition MCPRegistryPhaseReady :: MCPRegistryPhase where
  "MCPRegistryPhaseReady = ''Ready''"

definition MCPRegistryPhaseFailed :: MCPRegistryPhase where
  "MCPRegistryPhaseFailed = ''Failed''"

definition MCPRegistryPhaseTerminating :: MCPRegistryPhase where
  "MCPRegistryPhaseTerminating = ''Terminating''"

record Condition =
  ConditionType :: string
  ConditionStatus :: string
  ConditionReason :: string
  ConditionMessage :: string

record StorageReference =
  StorageType :: string
  StorageName :: string
  StorageNamespace :: string
  StorageKey :: string

record ConfigMapRegistrySource =
  ConfigMapName :: string
  ConfigMapNamespace :: string
  ConfigMapKey :: string

record MCPRegistrySource =
  SourceType :: string
  SourceFormat :: string
  SourceConfigMap :: "ConfigMapRegistrySource option"

record MCPRegistrySyncPolicy =
  PolicyType :: string
  Interval :: string

record TagFilter =
  TagInclude :: "string list"
  TagExclude :: "string list"

record MCPRegistryFilter =
  NameInclude :: "string list"
  NameExclude :: "string list"
  Tags :: "TagFilter option"

record MCPRegistrySpec =
  DisplayName :: string
  Source :: MCPRegistrySource
  SpecFormat :: string
  SyncPolicy :: "MCPRegistrySyncPolicy option"
  SpecFilter :: "MCPRegistryFilter option"

text \<open>
  The status fields are those the sync manager reads and writes
  (\<open>pkg/sync/manager.go\<close>): the ten fields below. The two counters are
  mathematical integers: the only arithmetic on them is adding one to the attempt
  count, which reaches the limit of its machine type after more failures than a
  declaration can live through.
\<close>

record MCPRegistryStatus =
  Conditions :: "Condition list"
  Phase :: MCPRegistryPhase
  Message :: string
  LastSyncTime :: "Time option"
  LastSyncHash :: string
  ServerCount :: int
  SyncAttempts :: int
  NextRetryTime :: "Time option"
  StorageRef :: "StorageReference option"
  LastManualSyncTrigger :: string

text \<open>
  The object metadata is flattened into the resource. \<open>Annotations\<close> is a Go map that
  may be nil (\<open>None\<close>); reading a missing key gives the empty string.
\<close>

record MCPRegistry =
  Name :: string
  Namespace :: string
  Annotations :: "(string \<rightharpoonup> string) option"
  DeletionTimestamp :: "Time option"
  Finalizers :: "string list"
  Spec :: MCPRegistrySpec
  Status :: MCPRegistryStatus

section \<open>The sync manager: ShouldSync\<close>

definition ReasonAlreadyInProgress :: string where
  "ReasonAlreadyInProgress = ''sync-already-in-progress''"

definition ReasonRegistryNotReady :: string where
  "ReasonRegistryNotReady = ''registry-not-ready''"

definition ReasonRetryBackoffActive :: string where
  "ReasonRetryBackoffActive = ''retry-backoff-active''"

definition ReasonSourceDataChanged :: string where
  "ReasonSourceDataChanged = ''source-data-changed''"

definition ReasonErrorCheckingChanges :: string where
  "ReasonErrorCheckingChanges = ''error-checking-data-changes''"

definition ReasonManualWithChanges :: string where
  "ReasonManualWithChanges = ''manual-sync-with-data-changes''"

definition ReasonManualNoChanges :: string where
  "ReasonManualNoChanges = ''manual-sync-no-data-changes''"

definition ReasonErrorParsingInterval :: string where
  "ReasonErrorParsingInterval = ''error-parsing-sync-interval''"

definition ReasonErrorCheckingSyncNeed :: string where
  "ReasonErrorCheckingSyncNeed = ''error-checking-sync-need''"

definition ReasonUpToDateWithPolicy :: string where
  "ReasonUpToDateWithPolicy = ''up-to-date-with-policy''"

definition ReasonUpToDateNoPolicy :: string where
  "ReasonUpToDateNoPolicy = ''up-to-date-no-policy''"

text \<open>
  The three checkers are interface-typed fields of \<open>DefaultSyncManager\<close>; their
  implementations are outside the modelled files, so they are the fields of a record
  of functions. Each returns what the Go method returns, error last.
\<close>

record SyncCheckers =
  IsDataChanged :: "MCPRegistry \<Rightarrow> bool \<times> error option"
  IsManualSyncRequested :: "MCPRegistry \<Rightarrow> bool \<times> string"
  IsIntervalSyncNeeded :: "MCPRegistry \<Rightarrow> bool \<times> Time \<times> error option"

text \<open>
  \<open>ShouldSync\<close>, branch by branch; \<open>now\<close> is the reading of \<open>time.Now()\<close>, and
  \<open>now.Before(t)\<close> is \<open>now < t\<close>. The result is the Go tuple
  (sync needed, reason, next check time, error).
\<close>

definition ShouldSync ::
  "SyncCheckers \<Rightarrow> Time \<Rightarrow> MCPRegistry \<Rightarrow> bool \<times> string \<times> Time option \<times> error option" where
  "ShouldSync s now mcpRegistry =
    (if Phase (Status mcpRegistry) = MCPRegistryPhaseSyncing
     then (False, ReasonAlreadyInProgress, None, None)
     else if Phase (Status mcpRegistry) \<noteq> MCPRegistryPhaseReady
     then (if Phase (Status mcpRegistry) = MCPRegistryPhaseFailed \<and>
              NextRetryTime (Status mcpRegistry) \<noteq> None \<and>
              now < the (NextRetryTime (Status mcpRegistry))
           then (False, ReasonRetryBackoffActive, NextRetryTime (Status mcpRegistry), None)
           else (True, ReasonRegistryNotReady, None, None))
     else (case IsDataChanged s mcpRegistry of
             (dataChanged, Some err) \<Rightarrow> (True, ReasonErrorCheckingChanges, None, Some err)
           | (dataChanged, None) \<Rightarrow>
               if fst (IsManualSyncRequested s mcpRegistry)
               then (if dataChanged then (True, ReasonManualWithChanges, None, None)
                     else (True, ReasonManualNoChanges, None, None))
               else if dataChanged then (True, ReasonSourceDataChanged, None, None)
               else if SyncPolicy (Spec mcpRegistry) \<noteq> None
               then (case IsIntervalSyncNeeded s mcpRegistry of
                       (needed, nextSyncTime, Some err) \<Rightarrow>
                         (True, ReasonErrorParsingInterval, None, Some err)
                     | (needed, nextSyncTime, None) \<Rightarrow>
                         (False, ReasonUpToDateWithPolicy, Some nextSyncTime, None))
               else (False, ReasonUpToDateNoPolicy, None, None)))"

section \<open>The sync manager: retry backoff\<close>

text \<open>
  \<open>calculateRetryInterval\<close>; \<open>1 << exponent\<close> is \<open>push_bit\<close> on the integer 1.
\<close>

definition calculateRetryInterval :: "int \<Rightarrow> Duration" where
  "calculateRetryInterval syncAttempts =
    (let baseInterval = Minute * 5;
         maxInterval = Hour * 1
     in if syncAttempts \<le> 0 then baseInterval
        else (let exponent = min (syncAttempts - 1) 4;
                  interval = baseInterval * push_bit (nat exponent) 1
              in min interval maxInterval))"

section \<open>Registry data\<close>

text \<open>
  Modelled from the spec: the declarations of \<open>registry.Registry\<close>,
  \<open>registry.ImageMetadata\<close>, \<open>registry.RemoteServerMetadata\<close> and
  \<open>registry.UpstreamServerDetail\<close> (package \<open>pkg/registry\<close>) are not among the
  source files; the fields below are those of the spec's data model (sections 3.1 and
  4.2) that the modelled functions read. A Go map is the list of its entries (keys
  distinct), in the order a \<open>range\<close> loop visits them; a nil map is \<open>None\<close>, and
  a map value of pointer type is an option (\<open>None\<close> for nil).
\<close>

record ImageMetadata =
  ServerName :: string
  Description :: string
  Tier :: string
  Transport :: string
  ServerTags :: "string list"
  Image :: string

record RemoteServerMetadata =
  RemoteName :: string
  RemoteDescription :: string
  RemoteURL :: string

record Registry =
  Version :: string
  LastUpdated :: string
  Servers :: "(string \<times> ImageMetadata option) list option"
  RemoteServers :: "(string \<times> RemoteServerMetadata option) list option"

definition len_map :: "('k \<times> 'v) list option \<Rightarrow> int" where
  "len_map m = (case m of None \<Rightarrow> 0 | Some entries \<Rightarrow> int (length entries))"

record FetchResult =
  FetchedRegistry :: Registry
  Hash :: string
  FetchedServerCount :: int
  FetchedFormat :: string

section \<open>The cluster, the collaborators and the call log\<close>

text \<open>
  The sync manager and the reconciler talk to the cluster API, the source handler
  factory, the source handler, the filter service and the storage manager. None of
  these is implemented in the modelled files, so each call is answered by the
  environment: whether a call fails may depend on everything that was called before
  it (the call log), which covers every behaviour of the collaborators. What the
  calls change is state: the declaration as the API server holds it (\<open>stored\<close>), the
  registry held by the storage manager (\<open>storage\<close>), and the log of calls.
\<close>

datatype call =
    CallGet
  | CallStatusUpdate
  | CallUpdate
  | CallCreateHandler
  | CallValidate
  | CallFetchRegistry
  | CallApplyFilters
  | CallStore
  | CallDelete

record world =
  stored :: MCPRegistry
  storage :: "Registry option"
  calls :: "call list"

record env =
  timeNow :: Time
  checkers :: SyncCheckers
  getErr :: "call list \<Rightarrow> error option"
  statusUpdateErr :: "call list \<Rightarrow> error option"
  updateErr :: "call list \<Rightarrow> error option"
  createHandlerErr :: "call list \<Rightarrow> error option"
  validateErr :: "call list \<Rightarrow> error option"
  fetchRegistry :: "call list \<Rightarrow> error + FetchResult"
  applyFilters :: "Registry \<Rightarrow> MCPRegistryFilter \<Rightarrow> error + Registry"
  storeErr :: "call list \<Rightarrow> error option"
  deleteErr :: "call list \<Rightarrow> error option"
  getStorageReference :: "MCPRegistry \<Rightarrow> StorageReference option"
  setStatusCondition :: "Condition list \<Rightarrow> Condition \<Rightarrow> Condition list"
  isManualSync :: "string \<Rightarrow> bool"
  parseDuration :: "string \<Rightarrow> error + Duration"

definition logCall :: "call \<Rightarrow> world \<Rightarrow> world" where
  "logCall c w = w\<lparr>calls := calls w @ [c]\<rparr>"

text \<open>
  \<open>client.Get(ctx, key, obj)\<close>: on success the object is overwritten with the stored
  declaration; on failure it is left as it was.
\<close>

definition clientGet :: "env \<Rightarrow> MCPRegistry \<Rightarrow> world \<Rightarrow> error option \<times> MCPRegistry \<times> world" where
  "clientGet e obj w =
    (case getErr e (calls w) of
       Some err \<Rightarrow> (Some err, obj, logCall CallGet w)
     | None \<Rightarrow> (None, stored w, logCall CallGet w))"

text \<open>
  \<open>client.Status().Update(ctx, obj)\<close>: the status subresource. On success the stored
  status becomes the object's status (nothing else of the stored declaration
  changes) and the object is refreshed from the answer.
\<close>

definition clientStatusUpdate :: "env \<Rightarrow> MCPRegistry \<Rightarrow> world \<Rightarrow> error option \<times> MCPRegistry \<times> world" where
  "clientStatusUpdate e obj w =
    (case statusUpdateErr e (calls w) of
       Some err \<Rightarrow> (Some err, obj, logCall CallStatusUpdate w)
     | None \<Rightarrow>
         (let stored' = (stored w)\<lparr>Status := Status obj\<rparr>
          in (None, stored', logCall CallStatusUpdate (w\<lparr>stored := stored'\<rparr>))))"

text \<open>
  \<open>client.Update(ctx, obj)\<close>: the main resource. On success metadata and spec of the
  stored declaration become the object's; the status is not written through this
  call (the resource has a status subresource).
\<close>

definition clientUpdate :: "env \<Rightarrow> MCPRegistry \<Rightarrow> world \<Rightarrow> error option \<times> MCPRegistry \<times> world" where
  "clientUpdate e obj w =
    (case updateErr e (calls w) of
       Some err \<Rightarrow> (Some err, obj, logCall CallUpdate w)
     | None \<Rightarrow>
         (let stored' = obj\<lparr>Status := Status (stored w)\<rparr>
          in (None, stored', logCall CallUpdate (w\<lparr>stored := stored'\<rparr>))))"

text \<open>
  The API server removes a declaration once it is marked for deletion and carries no
  finalizer (the comment in \<open>Reconcile\<close>: once all finalizers have been removed, the
  object will be deleted).
\<close>

definition declarationDeleted :: "world \<Rightarrow> bool" where
  "declarationDeleted w =
    (DeletionTimestamp (stored w) \<noteq> None \<and> Finalizers (stored w) = [])"

section \<open>The sync manager: composing and applying the status update\<close>

record Result =
  Requeue :: bool
  RequeueAfter :: Duration

definition emptyResult :: Result where
  "emptyResult = \<lparr>Requeue = False, RequeueAfter = 0\<rparr>"

record syncData =
  sdLastSyncTime :: "Time option"
  sdLastSyncHash :: string
  sdServerCount :: int
  sdStorageRef :: "StorageReference option"
  sdSyncAttempts :: int
  sdNextRetryTime :: "Time option"
  sdLastManualSyncTrigger :: string

record statusUpdate =
  uPhase :: MCPRegistryPhase
  uMessage :: string
  uConditions :: "Condition list"
  uSyncData :: "syncData option"
  uRetryResult :: "Result option"

definition MaxSyncAttempts :: int where
  "MaxSyncAttempts = 10"

definition MaxValidationRetries :: int where
  "MaxValidationRetries = 3"

definition MaxHandlerCreationRetries :: int where
  "MaxHandlerCreationRetries = 3"

definition ConditionSourceAvailable :: string where
  "ConditionSourceAvailable = ''SourceAvailable''"

definition ConditionDataValid :: string where
  "ConditionDataValid = ''DataValid''"

definition ConditionSyncSuccessful :: string where
  "ConditionSyncSuccessful = ''SyncSuccessful''"

definition conditionReasonHandlerCreationFailed :: string where
  "conditionReasonHandlerCreationFailed = ''HandlerCreationFailed''"

definition conditionReasonValidationFailed :: string where
  "conditionReasonValidationFailed = ''ValidationFailed''"

definition conditionReasonFetchFailed :: string where
  "conditionReasonFetchFailed = ''FetchFailed''"

definition conditionReasonStorageFailed :: string where
  "conditionReasonStorageFailed = ''StorageFailed''"

definition conditionReasonSourceReady :: string where
  "conditionReasonSourceReady = ''SourceReady''"

definition conditionReasonDataValid :: string where
  "conditionReasonDataValid = ''DataValid''"

definition conditionReasonSyncCompleted :: string where
  "conditionReasonSyncCompleted = ''SyncCompleted''"

text \<open>
  The annotation key is declared outside the modelled files; the value is the one the
  repository's documentation and its earlier controller use.
\<close>

definition SyncTriggerAnnotation :: string where
  "SyncTriggerAnnotation = ''toolhive.stacklok.dev/sync-trigger''"

text \<open>Decimal digits of an integer, as \<open>%d\<close> prints it.\<close>

fun digits :: "nat \<Rightarrow> string" where
  "digits n = (if n < 10 then [char_of (48 + n)] else digits (n div 10) @ [char_of (48 + n mod 10)])"

definition itoa :: "int \<Rightarrow> string" where
  "itoa i = (if i < 0 then CHR ''-'' # digits (nat (- i)) else digits (nat i))"

text \<open>
  The block of \<open>applyFinalStatusUpdate\<close> that copies the sync data into the status:
  the first five fields only when they are set in the update, the last two always.
\<close>

definition applySyncData :: "syncData \<Rightarrow> MCPRegistryStatus \<Rightarrow> MCPRegistryStatus" where
  "applySyncData sd st =
    (let st1 = (if sdLastSyncTime sd \<noteq> None then st\<lparr>LastSyncTime := sdLastSyncTime sd\<rparr> else st);
         st2 = (if sdLastSyncHash sd \<noteq> [] then st1\<lparr>LastSyncHash := sdLastSyncHash sd\<rparr> else st1);
         st3 = (if sdServerCount sd > 0 then st2\<lparr>ServerCount := sdServerCount sd\<rparr> else st2);
         st4 = (if sdStorageRef sd \<noteq> None then st3\<lparr>StorageRef := sdStorageRef sd\<rparr> else st3);
         st5 = (if sdLastManualSyncTrigger sd \<noteq> []
                then st4\<lparr>LastManualSyncTrigger := sdLastManualSyncTrigger sd\<rparr> else st4)
     in st5\<lparr>NextRetryTime := sdNextRetryTime sd, SyncAttempts := sdSyncAttempts sd\<rparr>)"

text \<open>
  \<open>applyFinalStatusUpdate\<close>: refresh, apply phase, message, sync data and conditions
  to the refreshed object, write the status once, return the update's result.
\<close>

definition applyFinalStatusUpdate ::
  "env \<Rightarrow> MCPRegistry \<Rightarrow> world \<Rightarrow> statusUpdate \<Rightarrow> (Result \<times> error option) \<times> MCPRegistry \<times> world" where
  "applyFinalStatusUpdate e mcpRegistry w update =
    (case clientGet e mcpRegistry w of
       (Some err, r0, w0) \<Rightarrow> ((emptyResult, Some err), r0, w0)
     | (None, r0, w0) \<Rightarrow>
         (let st1 = (Status r0)\<lparr>Phase := uPhase update, Message := uMessage update\<rparr>;
              st2 = (case uSyncData update of None \<Rightarrow> st1 | Some sd \<Rightarrow> applySyncData sd st1);
              st3 = st2\<lparr>Conditions := foldl (setStatusCondition e) (Conditions st2) (uConditions update)\<rparr>
          in (case clientStatusUpdate e (r0\<lparr>Status := st3\<rparr>) w0 of
                (Some err, r1, w1) \<Rightarrow> ((emptyResult, Some err), r1, w1)
              | (None, r1, w1) \<Rightarrow>
                  ((case uRetryResult update of Some res \<Rightarrow> res | None \<Rightarrow> emptyResult, None),
                   r1, w1))))"

text \<open>\<open>UpdateManualSyncTriggerOnly\<close>: refresh, record the trigger annotation, write.\<close>

definition triggerValue :: "MCPRegistry \<Rightarrow> string" where
  "triggerValue mcpRegistry =
    (case Annotations mcpRegistry of
       None \<Rightarrow> []
     | Some m \<Rightarrow> (case m SyncTriggerAnnotation of None \<Rightarrow> [] | Some v \<Rightarrow> v))"

definition UpdateManualSyncTriggerOnly ::
  "env \<Rightarrow> MCPRegistry \<Rightarrow> world \<Rightarrow> (Result \<times> error option) \<times> MCPRegistry \<times> world" where
  "UpdateManualSyncTriggerOnly e mcpRegistry w =
    (case clientGet e mcpRegistry w of
       (Some err, r0, w0) \<Rightarrow> ((emptyResult, Some err), r0, w0)
     | (None, r0, w0) \<Rightarrow>
         (let r1 = (if Annotations r0 \<noteq> None \<and> triggerValue r0 \<noteq> []
                    then r0\<lparr>Status := (Status r0)\<lparr>LastManualSyncTrigger := triggerValue r0\<rparr>\<rparr>
                    else r0)
          in (case clientStatusUpdate e r1 w0 of
                (Some err, r2, w1) \<Rightarrow> ((emptyResult, Some err), r2, w1)
              | (None, r2, w1) \<Rightarrow> ((emptyResult, None), r2, w1))))"

text \<open>
  \<open>updatePhaseFailedWithCondition\<close>: refresh, set phase Failed and the message, count
  the attempt, set the condition, write the status.
\<close>

definition updatePhaseFailedWithCondition ::
  "env \<Rightarrow> MCPRegistry \<Rightarrow> world \<Rightarrow> string \<Rightarrow> string \<Rightarrow> string \<Rightarrow> string \<Rightarrow>
   error option \<times> MCPRegistry \<times> world" where
  "updatePhaseFailedWithCondition e mcpRegistry w message conditionType reason conditionMessage =
    (case clientGet e mcpRegistry w of
       (Some err, r0, w0) \<Rightarrow>
         (Some (WrapError ''failed to refresh MCPRegistry before status update: '' err), r0, w0)
     | (None, r0, w0) \<Rightarrow>
         (let st = (Status r0)\<lparr>Phase := MCPRegistryPhaseFailed, Message := message,
                     SyncAttempts := SyncAttempts (Status r0) + 1\<rparr>;
              st' = st\<lparr>Conditions := setStatusCondition e (Conditions st)
                       \<lparr>ConditionType = conditionType, ConditionStatus = ''False'',
                        ConditionReason = reason, ConditionMessage = conditionMessage\<rparr>\<rparr>
          in clientStatusUpdate e (r0\<lparr>Status := st'\<rparr>) w0))"

section \<open>The sync manager: PerformSync\<close>

text \<open>
  \<open>applyFilteringIfConfigured\<close>: with a filter in the spec the filter service prunes the
  fetched registry and the server count is recomputed from the pruned registry; a
  filter error is recorded in the status and returned.
\<close>

definition applyFilteringIfConfigured ::
  "env \<Rightarrow> MCPRegistry \<Rightarrow> world \<Rightarrow> FetchResult \<Rightarrow>
   (error option \<times> FetchResult) \<times> MCPRegistry \<times> world" where
  "applyFilteringIfConfigured e mcpRegistry w fetchResult =
    (case SpecFilter (Spec mcpRegistry) of
       None \<Rightarrow> ((None, fetchResult), mcpRegistry, w)
     | Some f \<Rightarrow>
         (let w1 = logCall CallApplyFilters w
          in case applyFilters e (FetchedRegistry fetchResult) f of
               Inl err \<Rightarrow>
                 (case updatePhaseFailedWithCondition e mcpRegistry w1
                         (''Filtering failed: '' @ Error err)
                         ConditionSyncSuccessful conditionReasonFetchFailed (Error err) of
                    (statusErr, r, w2) \<Rightarrow> ((Some err, fetchResult), r, w2))
             | Inr filteredRegistry \<Rightarrow>
                 ((None, fetchResult\<lparr>FetchedRegistry := filteredRegistry,
                     FetchedServerCount :=
                       len_map (Servers filteredRegistry) + len_map (RemoteServers filteredRegistry)\<rparr>),
                  mcpRegistry, w1)))"

text \<open>
  \<open>fetchAndProcessRegistryData\<close>: create the handler, validate the source, fetch,
  filter. Each failure is recorded through \<open>updatePhaseFailedWithCondition\<close> (whose own
  error is only logged) and returned.
\<close>

definition fetchAndProcessRegistryData ::
  "env \<Rightarrow> MCPRegistry \<Rightarrow> world \<Rightarrow> (error + FetchResult) \<times> MCPRegistry \<times> world" where
  "fetchAndProcessRegistryData e mcpRegistry w =
    (let w1 = logCall CallCreateHandler w
     in case createHandlerErr e (calls w) of
          Some err \<Rightarrow>
            (case updatePhaseFailedWithCondition e mcpRegistry w1
                    (''Failed to create source handler: '' @ Error err)
                    ConditionSourceAvailable conditionReasonHandlerCreationFailed (Error err) of
               (statusErr, r, w2) \<Rightarrow> (Inl err, r, w2))
        | None \<Rightarrow>
            (let w2 = logCall CallValidate w1
             in case validateErr e (calls w1) of
                  Some err \<Rightarrow>
                    (case updatePhaseFailedWithCondition e mcpRegistry w2
                            (''Source validation failed: '' @ Error err)
                            ConditionSourceAvailable conditionReasonValidationFailed (Error err) of
                       (statusErr, r, w3) \<Rightarrow> (Inl err, r, w3))
                | None \<Rightarrow>
                    (let w3 = logCall CallFetchRegistry w2
                     in case fetchRegistry e (calls w2) of
                          Inl err \<Rightarrow>
                            (let counted = mcpRegistry\<lparr>Status := (Status mcpRegistry)
                                   \<lparr>SyncAttempts := SyncAttempts (Status mcpRegistry) + 1\<rparr>\<rparr>
                             in case updatePhaseFailedWithCondition e counted w3
                                     (''Fetch failed: '' @ Error err)
                                     ConditionSyncSuccessful conditionReasonFetchFailed (Error err) of
                                  (statusErr, r, w4) \<Rightarrow> (Inl err, r, w4))
                        | Inr fetchResult \<Rightarrow>
                            (case applyFilteringIfConfigured e mcpRegistry w3 fetchResult of
                               ((Some err, fr), r, w4) \<Rightarrow> (Inl err, r, w4)
                             | ((None, fr), r, w4) \<Rightarrow> (Inr fr, r, w4)))))"

text \<open>
  The status update literals of \<open>PerformSync\<close>. Every failure literal has the same
  shape: phase Failed, a message, one condition with status False whose message is the
  error text, and sync data that sets only the attempt count and (when a retry is
  scheduled) the next retry time.
\<close>

definition failureUpdate ::
  "string \<Rightarrow> string \<Rightarrow> string \<Rightarrow> error \<Rightarrow> int \<Rightarrow> Time option \<Rightarrow> Result \<Rightarrow> statusUpdate" where
  "failureUpdate message conditionType reason err attempts nextRetryTime retryResult =
    \<lparr>uPhase = MCPRegistryPhaseFailed,
     uMessage = message,
     uConditions = [\<lparr>ConditionType = conditionType, ConditionStatus = ''False'',
                     ConditionReason = reason, ConditionMessage = Error err\<rparr>],
     uSyncData = Some \<lparr>sdLastSyncTime = None, sdLastSyncHash = [], sdServerCount = 0,
                       sdStorageRef = None, sdSyncAttempts = attempts,
                       sdNextRetryTime = nextRetryTime, sdLastManualSyncTrigger = []\<rparr>,
     uRetryResult = Some retryResult\<rparr>"

definition successUpdate ::
  "Time \<Rightarrow> FetchResult \<Rightarrow> StorageReference option \<Rightarrow> string \<Rightarrow> statusUpdate" where
  "successUpdate t fetchResult storageRef lastManualSyncTrigger =
    \<lparr>uPhase = MCPRegistryPhaseReady,
     uMessage = ''Registry is ready and synchronized'',
     uConditions =
       [\<lparr>ConditionType = ConditionSourceAvailable, ConditionStatus = ''True'',
         ConditionReason = conditionReasonSourceReady,
         ConditionMessage = ''Source configuration is valid and accessible''\<rparr>,
        \<lparr>ConditionType = ConditionDataValid, ConditionStatus = ''True'',
         ConditionReason = conditionReasonDataValid,
         ConditionMessage = ''Registry data is valid and parsed successfully''\<rparr>,
        \<lparr>ConditionType = ConditionSyncSuccessful, ConditionStatus = ''True'',
         ConditionReason = conditionReasonSyncCompleted,
         ConditionMessage = ''Registry sync completed successfully''\<rparr>],
     uSyncData = Some \<lparr>sdLastSyncTime = Some t, sdLastSyncHash = Hash fetchResult,
                       sdServerCount = FetchedServerCount fetchResult,
                       sdStorageRef = storageRef, sdSyncAttempts = 0,
                       sdNextRetryTime = None,
                       sdLastManualSyncTrigger = lastManualSyncTrigger\<rparr>,
     uRetryResult = Some emptyResult\<rparr>"

definition requeueAfter :: "Duration \<Rightarrow> Result" where
  "requeueAfter d = \<lparr>Requeue = False, RequeueAfter = d\<rparr>"

text \<open>
  \<open>PerformSync\<close> up to its return statement. Every return of \<open>PerformSync\<close> has the
  form \<open>return s.applyFinalStatusUpdate(ctx, mcpRegistry, &statusUpdate{...})\<close>, so the
  function is the composition of the update with its single application.

  The body is modelled as it stands in \<open>manager.go\<close>: after
  \<open>fetchAndProcessRegistryData\<close> (whose error is treated as a handler creation
  failure) it validates and fetches again through \<open>sourceHandler\<close>, assigns the second
  fetch to \<open>fetchResult\<close>, and stores that. \<open>PerformSync\<close> does not declare
  \<open>sourceHandler\<close>; the model takes it to be the handler of the declaration's source,
  whose calls the environment answers.
\<close>

definition composeStatusUpdate ::
  "env \<Rightarrow> MCPRegistry \<Rightarrow> world \<Rightarrow> statusUpdate \<times> MCPRegistry \<times> world" where
  "composeStatusUpdate e mcpRegistry w =
    (case fetchAndProcessRegistryData e mcpRegistry w of
       (Inl err, r, w1) \<Rightarrow>
         (if SyncAttempts (Status r) \<ge> MaxHandlerCreationRetries
          then (failureUpdate
                  (''Failed to create source handler after '' @ itoa (SyncAttempts (Status r))
                     @ '' attempts: '' @ Error err)
                  ConditionSourceAvailable conditionReasonHandlerCreationFailed err
                  (SyncAttempts (Status r) + 1) None emptyResult, r, w1)
          else (failureUpdate
                  (''Failed to create source handler: '' @ Error err)
                  ConditionSourceAvailable conditionReasonHandlerCreationFailed err
                  (SyncAttempts (Status r) + 1) (Some (timeNow e + Hour * 1))
                  (requeueAfter (Hour * 1)), r, w1))
     | (Inr processed, r, w1) \<Rightarrow>
         (let w2 = logCall CallValidate w1
          in case validateErr e (calls w1) of
               Some err \<Rightarrow>
                 (if SyncAttempts (Status r) \<ge> MaxValidationRetries
                  then (failureUpdate
                          (''Source validation failed after '' @ itoa (SyncAttempts (Status r))
                             @ '' attempts: '' @ Error err)
                          ConditionSourceAvailable conditionReasonValidationFailed err
                          (SyncAttempts (Status r) + 1) None emptyResult, r, w2)
                  else (failureUpdate
                          (''Source validation failed: '' @ Error err)
                          ConditionSourceAvailable conditionReasonValidationFailed err
                          (SyncAttempts (Status r) + 1) (Some (timeNow e + Hour * 1))
                          (requeueAfter (Hour * 1)), r, w2))
             | None \<Rightarrow>
                 (let w3 = logCall CallFetchRegistry w2
                  in case fetchRegistry e (calls w2) of
                       Inl err \<Rightarrow>
                         (if SyncAttempts (Status r) \<ge> MaxSyncAttempts
                          then (failureUpdate
                                  (''Fetch failed after '' @ itoa (SyncAttempts (Status r))
                                     @ '' attempts: '' @ Error err)
                                  ConditionSyncSuccessful conditionReasonFetchFailed err
                                  (SyncAttempts (Status r) + 1) None emptyResult, r, w3)
                          else (let retryInterval = calculateRetryInterval (SyncAttempts (Status r))
                                in (failureUpdate
                                      (''Fetch failed: '' @ Error err)
                                      ConditionSyncSuccessful conditionReasonFetchFailed err
                                      (SyncAttempts (Status r) + 1)
                                      (Some (timeNow e + retryInterval))
                                      (requeueAfter retryInterval), r, w3)))
                     | Inr fetchResult \<Rightarrow>
                         (let w4 = logCall CallStore w3
                          in case storeErr e (calls w3) of
                               Some err \<Rightarrow>
                                 (if SyncAttempts (Status r) \<ge> MaxSyncAttempts
                                  then (failureUpdate
                                          (''Storage failed after '' @ itoa (SyncAttempts (Status r))
                                             @ '' attempts: '' @ Error err)
                                          ConditionSyncSuccessful conditionReasonStorageFailed err
                                          (SyncAttempts (Status r) + 1) None emptyResult, r, w4)
                                  else (let retryInterval =
                                              calculateRetryInterval (SyncAttempts (Status r))
                                        in (failureUpdate
                                              (''Storage failed: '' @ Error err)
                                              ConditionSyncSuccessful conditionReasonStorageFailed err
                                              (SyncAttempts (Status r) + 1)
                                              (Some (timeNow e + retryInterval))
                                              (requeueAfter retryInterval), r, w4)))
                             | None \<Rightarrow>
                                 (let w5 = w4\<lparr>storage := Some (FetchedRegistry fetchResult)\<rparr>;
                                      storageRef = getStorageReference e r;
                                      lastManualSyncTrigger =
                                        (if Annotations r \<noteq> None \<and> triggerValue r \<noteq> []
                                         then triggerValue r else [])
                                  in (successUpdate (timeNow e) fetchResult storageRef
                                        lastManualSyncTrigger, r, w5))))))"

definition PerformSync ::
  "env \<Rightarrow> MCPRegistry \<Rightarrow> world \<Rightarrow> (Result \<times> error option) \<times> MCPRegistry \<times> world" where
  "PerformSync e mcpRegistry w =
    (case composeStatusUpdate e mcpRegistry w of
       (update, r, w1) \<Rightarrow> applyFinalStatusUpdate e r w1 update)"

text \<open>\<open>Delete\<close> of the sync manager hands over to the storage manager.\<close>

definition Delete :: "env \<Rightarrow> MCPRegistry \<Rightarrow> world \<Rightarrow> error option \<times> world" where
  "Delete e mcpRegistry w =
    (case deleteErr e (calls w) of
       Some err \<Rightarrow> (Some err, logCall CallDelete w)
     | None \<Rightarrow> (None, logCall CallDelete (w\<lparr>storage := None\<rparr>)))"

text \<open>
  Two statuses agree on the record of the last successful sync; and a status update
  is failure-shaped when its sync data sets none of these five fields.
\<close>

definition sameSyncRecord :: "MCPRegistryStatus \<Rightarrow> MCPRegistryStatus \<Rightarrow> bool" where
  "sameSyncRecord st st' =
    (LastSyncTime st' = LastSyncTime st \<and> LastSyncHash st' = LastSyncHash st \<and>
     StorageRef st' = StorageRef st \<and> ServerCount st' = ServerCount st \<and>
     LastManualSyncTrigger st' = LastManualSyncTrigger st)"

definition failureShaped :: "statusUpdate \<Rightarrow> bool" where
  "failureShaped u =
    (case uSyncData u of
       None \<Rightarrow> True
     | Some sd \<Rightarrow> sdLastSyncTime sd = None \<and> sdLastSyncHash sd = [] \<and> sdServerCount sd \<le> 0 \<and>
                 sdStorageRef sd = None \<and> sdLastManualSyncTrigger sd = [])"

text \<open>
  What a composed update schedules: for an update with one condition, sync data with
  a next retry time and a result, the condition's reason, the attempt count it
  records, the requeue delay and the next retry time.
\<close>

definition scheduledRetry :: "statusUpdate \<Rightarrow> (string \<times> int \<times> Duration \<times> Time) option" where
  "scheduledRetry u =
    (case (uConditions u, uSyncData u, uRetryResult u) of
       ([c], Some sd, Some res) \<Rightarrow>
         (case sdNextRetryTime sd of
            Some t \<Rightarrow> Some (ConditionReason c, sdSyncAttempts sd, RequeueAfter res, t)
          | None \<Rightarrow> None)
     | other \<Rightarrow> None)"

section \<open>The reconciler\<close>

definition finalizerName :: string where
  "finalizerName = ''mcpregistry.toolhive.stacklok.dev/finalizer''"

text \<open>The finalizer helpers of \<open>controllerutil\<close>.\<close>

definition ContainsFinalizer :: "MCPRegistry \<Rightarrow> string \<Rightarrow> bool" where
  "ContainsFinalizer obj f = (f \<in> set (Finalizers obj))"

definition RemoveFinalizer :: "MCPRegistry \<Rightarrow> string \<Rightarrow> MCPRegistry" where
  "RemoveFinalizer obj f = obj\<lparr>Finalizers := filter (\<lambda>x. x \<noteq> f) (Finalizers obj)\<rparr>"

definition AddFinalizer :: "MCPRegistry \<Rightarrow> string \<Rightarrow> MCPRegistry" where
  "AddFinalizer obj f =
    (if f \<in> set (Finalizers obj) then obj else obj\<lparr>Finalizers := Finalizers obj @ [f]\<rparr>)"

text \<open>The zero value \<open>&mcpv1alpha1.MCPRegistry{}\<close>.\<close>

definition zeroMCPRegistry :: MCPRegistry where
  "zeroMCPRegistry =
    \<lparr>Name = [], Namespace = [], Annotations = None, DeletionTimestamp = None, Finalizers = [],
     Spec = \<lparr>DisplayName = [],
              Source = \<lparr>SourceType = [], SourceFormat = [], SourceConfigMap = None\<rparr>,
              SpecFormat = [], SyncPolicy = None, SpecFilter = None\<rparr>,
     Status = \<lparr>Conditions = [], Phase = [], Message = [], LastSyncTime = None,
                LastSyncHash = [], ServerCount = 0, SyncAttempts = 0, NextRetryTime = None,
                StorageRef = None, LastManualSyncTrigger = []\<rparr>\<rparr>"

text \<open>
  \<open>finalizeMCPRegistry\<close>: write phase Terminating (an error of this write is
  returned), then delete the storage; an error of the deletion is logged and
  finalization continues, so the function returns nil.
\<close>

definition finalizeMCPRegistry ::
  "env \<Rightarrow> MCPRegistry \<Rightarrow> world \<Rightarrow> error option \<times> MCPRegistry \<times> world" where
  "finalizeMCPRegistry e registry w =
    (let terminating = registry\<lparr>Status := (Status registry)
           \<lparr>Phase := MCPRegistryPhaseTerminating,
            Message := ''MCPRegistry is being terminated''\<rparr>\<rparr>
     in case clientStatusUpdate e terminating w of
          (Some err, r, w1) \<Rightarrow> (Some err, r, w1)
        | (None, r, w1) \<Rightarrow>
            (case Delete e r w1 of
               (deleteError, w2) \<Rightarrow> (None, r, w2)))"

text \<open>
  The loop of \<open>reconcileSync\<close> that reads the declaration again after a sync: at most
  three reads, counted by \<open>i\<close> from 0; a read error ends \<open>reconcileSync\<close>.
\<close>

function refreshAfterSync ::
  "env \<Rightarrow> MCPRegistry \<Rightarrow> nat \<Rightarrow> world \<Rightarrow> (error + MCPRegistry) \<times> world" where
  "refreshAfterSync e mcpRegistry i w =
    (case clientGet e zeroMCPRegistry w of
       (Some err, freshRegistry, w1) \<Rightarrow> (Inl err, w1)
     | (None, freshRegistry, w1) \<Rightarrow>
         if i > 0 \<and> SyncAttempts (Status freshRegistry) > SyncAttempts (Status mcpRegistry)
         then (Inr freshRegistry, w1)
         else if i + 1 < 3 then refreshAfterSync e mcpRegistry (i + 1) w1
         else (Inr freshRegistry, w1))"
  by pat_completeness auto
termination
  by (relation "measure (\<lambda>(e, mcpRegistry, i, w). 3 - i)") auto

text \<open>
  \<open>reconcileSync\<close>: refresh, ask \<open>ShouldSync\<close>, and then either requeue, or take the
  trigger-tracking path, or run \<open>PerformSync\<close> and schedule what follows.
  \<open>time.Until(t)\<close> is \<open>t - now\<close>.
\<close>

definition retryResult :: "Result \<Rightarrow> Result" where
  "retryResult result =
    requeueAfter (if RequeueAfter result > 0 then RequeueAfter result else Minute * 5)"

definition reconcileSync ::
  "env \<Rightarrow> MCPRegistry \<Rightarrow> world \<Rightarrow> (Result \<times> error option) \<times> MCPRegistry \<times> world" where
  "reconcileSync e mcpRegistry w =
    (case clientGet e mcpRegistry w of
       (Some err, r, w1) \<Rightarrow> ((emptyResult, Some err), r, w1)
     | (None, r, w1) \<Rightarrow>
         (case ShouldSync (checkers e) (timeNow e) r of
            (needed, reason, nextSyncTime, err) \<Rightarrow>
              (let syncNeeded = (if err \<noteq> None then True else needed);
                   syncReason = (if err \<noteq> None then ReasonErrorCheckingSyncNeed else reason)
               in if \<not> syncNeeded
                  then (case nextSyncTime of
                          Some t \<Rightarrow> ((requeueAfter (t - timeNow e), None), r, w1)
                        | None \<Rightarrow> ((emptyResult, None), r, w1))
                  else if syncReason = ReasonManualNoChanges
                  then UpdateManualSyncTriggerOnly e r w1
                  else (case PerformSync e r w1 of
                          ((result, Some perr), r2, w2) \<Rightarrow> ((retryResult result, Some perr), r2, w2)
                        | ((result, None), r2, w2) \<Rightarrow>
                            (case refreshAfterSync e r2 0 w2 of
                               (Inl gerr, w3) \<Rightarrow> ((emptyResult, Some gerr), r2, w3)
                             | (Inr refreshedRegistry, w3) \<Rightarrow>
                                 if Phase (Status refreshedRegistry) = MCPRegistryPhaseFailed
                                 then ((retryResult result, None), r2, w3)
                                 else (case SyncPolicy (Spec r2) of
                                         Some policy \<Rightarrow>
                                           if \<not> isManualSync e syncReason
                                           then (case parseDuration e (Interval policy) of
                                                   Inr interval \<Rightarrow>
                                                     ((result\<lparr>RequeueAfter := interval\<rparr>, None), r2, w3)
                                                 | Inl parseErr \<Rightarrow> ((result, None), r2, w3))
                                           else ((result, None), r2, w3)
                                       | None \<Rightarrow> ((result, None), r2, w3)))))))"

text \<open>
  \<open>Reconcile\<close>: read the declaration; when it is marked for deletion run the
  finalizer and remove it; attach the finalizer when it is missing; otherwise
  \<open>reconcileSync\<close>, followed by one more read for the log line.
\<close>

definition Reconcile :: "env \<Rightarrow> world \<Rightarrow> (Result \<times> error option) \<times> world" where
  "Reconcile e w =
    (case clientGet e zeroMCPRegistry w of
       (Some err, r, w1) \<Rightarrow>
         if IsNotFound err then ((emptyResult, None), w1) else ((emptyResult, Some err), w1)
     | (None, mcpRegistry, w1) \<Rightarrow>
         if DeletionTimestamp mcpRegistry \<noteq> None
         then (if ContainsFinalizer mcpRegistry finalizerName
               then (case finalizeMCPRegistry e mcpRegistry w1 of
                       (Some err, r, w2) \<Rightarrow> ((emptyResult, Some err), w2)
                     | (None, r, w2) \<Rightarrow>
                         (case clientUpdate e (RemoveFinalizer r finalizerName) w2 of
                            (Some err, r3, w3) \<Rightarrow> ((emptyResult, Some err), w3)
                          | (None, r3, w3) \<Rightarrow> ((emptyResult, None), w3)))
               else ((emptyResult, None), w1))
         else if \<not> ContainsFinalizer mcpRegistry finalizerName
         then (case clientUpdate e (AddFinalizer mcpRegistry finalizerName) w1 of
                 (Some err, r2, w2) \<Rightarrow> ((emptyResult, Some err), w2)
               | (None, r2, w2) \<Rightarrow> ((emptyResult, None), w2))
         else (case reconcileSync e mcpRegistry w1 of
                 ((result, err), r2, w2) \<Rightarrow>
                   (case clientGet e r2 w2 of
                      (refreshErr, r3, w3) \<Rightarrow> ((result, err), w3))))"


section \<open>JSON, hashing and the format converter\<close>

text \<open>
  \<open>encoding/json\<close> is a collaborator. \<open>json.Unmarshal\<close> first checks that the bytes are
  a valid JSON text and only then decodes them into the target, so each use of it is
  the validity check followed by the decoder for the target's type. Decoders and
  encoders are the fields of a record; a decoded map lists its entries in the order
  in which a \<open>range\<close> loop over it visits them.
\<close>

datatype json =
    JNull
  | JBool bool
  | JNumber int
  | JString string
  | JArray "json list"
  | JObject "(string \<times> json) list"

text \<open>
  Modelled from the spec: \<open>registry.UpstreamServerDetail\<close> is declared outside the
  source files; by section 4.2 an upstream entry is an envelope with a nested
  \<open>server\<close> that has a name and a description.
\<close>

record UpstreamServer =
  UpstreamName :: string
  UpstreamDescription :: string

record UpstreamServerDetail =
  Server :: UpstreamServer

text \<open>\<open>RegistryData\<close> and \<open>Server\<close> of the source handler package.\<close>

record SourceServer =
  SourceDescription :: string
  SourceTransport :: string
  SourceImage :: string

record RegistryData =
  DataSchema :: string
  DataVersion :: string
  DataServers :: "(string \<times> SourceServer) list option"

record jsonlib =
  valid :: "string \<Rightarrow> bool"
  decodeRegistry :: "string \<Rightarrow> Registry option"
  decodeUpstream :: "string \<Rightarrow> (string \<times> UpstreamServerDetail option) list option"
  decodeRegistryData :: "string \<Rightarrow> RegistryData option"
  decodeGeneric :: "string \<Rightarrow> (string \<times> json) list option"
  marshalUpstream :: "(string \<times> UpstreamServerDetail option) list \<Rightarrow> error + string"
  marshalRegistry :: "Registry \<Rightarrow> error + string"

definition UnmarshalRegistry :: "jsonlib \<Rightarrow> string \<Rightarrow> Registry option" where
  "UnmarshalRegistry J data = (if valid J data then decodeRegistry J data else None)"

definition UnmarshalUpstream ::
  "jsonlib \<Rightarrow> string \<Rightarrow> (string \<times> UpstreamServerDetail option) list option" where
  "UnmarshalUpstream J data = (if valid J data then decodeUpstream J data else None)"

definition UnmarshalRegistryData :: "jsonlib \<Rightarrow> string \<Rightarrow> RegistryData option" where
  "UnmarshalRegistryData J data = (if valid J data then decodeRegistryData J data else None)"

definition UnmarshalGeneric :: "jsonlib \<Rightarrow> string \<Rightarrow> (string \<times> json) list option" where
  "UnmarshalGeneric J data = (if valid J data then decodeGeneric J data else None)"

text \<open>
  The per-server conversions of package \<open>pkg/registry\<close> and the formatted current
  time are collaborators of the converter. A converted upstream server is an image
  server (\<open>Inl\<close>) or a remote server (\<open>Inr\<close>).
\<close>

record registrylib =
  ConvertToolhiveToUpstream :: "ImageMetadata option \<Rightarrow> error + UpstreamServerDetail option"
  ConvertUpstreamToToolhive ::
    "UpstreamServerDetail option \<Rightarrow> error + (ImageMetadata option + RemoteServerMetadata option)"
  nowRFC3339 :: string

definition RegistryFormatToolHive :: string where
  "RegistryFormatToolHive = ''toolhive''"

definition RegistryFormatUpstream :: string where
  "RegistryFormatUpstream = ''upstream''"

definition SupportedFormats :: "string list" where
  "SupportedFormats = [RegistryFormatToolHive, RegistryFormatUpstream]"

definition normalizeFormat :: "string \<Rightarrow> string" where
  "normalizeFormat format = (if format = [] then RegistryFormatToolHive else format)"

fun isFormatSupported :: "string \<Rightarrow> string list \<Rightarrow> bool" where
  "isFormatSupported format [] = False"
| "isFormatSupported format (s # supported) =
     (if s = format then True else isFormatSupported format supported)"

text \<open>
  \<open>DetectFormat\<close>. The loop over the upstream map returns or breaks in its first
  iteration, so only the entry visited first is looked at.
\<close>

definition detectUpstream :: "jsonlib \<Rightarrow> string \<Rightarrow> error + string" where
  "detectUpstream J data =
    (case UnmarshalUpstream J data of
       Some ((serverName, Some serverDetail) # others) \<Rightarrow>
         if UpstreamName (Server serverDetail) \<noteq> [] then Inr RegistryFormatUpstream
         else Inl (ErrorString
                ''unable to detect registry format: data does not match any known format'')
     | other \<Rightarrow>
         Inl (ErrorString
                ''unable to detect registry format: data does not match any known format''))"

definition DetectFormat :: "jsonlib \<Rightarrow> string \<Rightarrow> error + string" where
  "DetectFormat J data =
    (if length data = 0 then Inl (ErrorString ''cannot detect format of empty data'')
     else (case UnmarshalRegistry J data of
             Some toolhiveRegistry \<Rightarrow>
               if Version toolhiveRegistry \<noteq> [] \<and> Servers toolhiveRegistry \<noteq> None
               then Inr RegistryFormatToolHive
               else detectUpstream J data
           | None \<Rightarrow> detectUpstream J data))"

text \<open>The two conversions. A loop over a map stops at the first server that fails.\<close>

fun convertServersToUpstream ::
  "registrylib \<Rightarrow> (string \<times> ImageMetadata option) list \<Rightarrow>
   error + (string \<times> UpstreamServerDetail option) list" where
  "convertServersToUpstream L [] = Inr []"
| "convertServersToUpstream L ((serverName, toolhiveServer) # others) =
     (case ConvertToolhiveToUpstream L toolhiveServer of
        Inl err \<Rightarrow> Inl (WrapError (''failed to convert server '' @ serverName @ '': '') err)
      | Inr upstreamServer \<Rightarrow>
          (case convertServersToUpstream L others of
             Inl err \<Rightarrow> Inl err
           | Inr converted \<Rightarrow> Inr ((serverName, upstreamServer) # converted)))"

definition convertToolhiveToUpstream :: "jsonlib \<Rightarrow> registrylib \<Rightarrow> string \<Rightarrow> error + string" where
  "convertToolhiveToUpstream J L data =
    (case UnmarshalRegistry J data of
       None \<Rightarrow> Inl (WrapError ''failed to parse ToolHive registry format: ''
                      (ErrorString ''json: cannot unmarshal''))
     | Some toolhiveRegistry \<Rightarrow>
         (case convertServersToUpstream L
                 (case Servers toolhiveRegistry of None \<Rightarrow> [] | Some entries \<Rightarrow> entries) of
            Inl err \<Rightarrow> Inl err
          | Inr upstreamRegistry \<Rightarrow>
              (case marshalUpstream J upstreamRegistry of
                 Inl err \<Rightarrow> Inl (WrapError ''failed to marshal upstream registry: '' err)
               | Inr result \<Rightarrow> Inr result)))"

fun convertServersToToolhive ::
  "registrylib \<Rightarrow> (string \<times> UpstreamServerDetail option) list \<Rightarrow>
   error + (string \<times> ImageMetadata option) list" where
  "convertServersToToolhive L [] = Inr []"
| "convertServersToToolhive L ((serverName, upstreamServer) # others) =
     (case ConvertUpstreamToToolhive L upstreamServer of
        Inl err \<Rightarrow> Inl (WrapError (''failed to convert server '' @ serverName @ '': '') err)
      | Inr toolhiveServer \<Rightarrow>
          (case convertServersToToolhive L others of
             Inl err \<Rightarrow> Inl err
           | Inr converted \<Rightarrow>
               (case toolhiveServer of
                  Inl imageServer \<Rightarrow> Inr ((serverName, imageServer) # converted)
                | Inr remoteServer \<Rightarrow> Inr converted)))"

definition convertUpstreamToToolhive :: "jsonlib \<Rightarrow> registrylib \<Rightarrow> string \<Rightarrow> error + string" where
  "convertUpstreamToToolhive J L data =
    (case UnmarshalUpstream J data of
       None \<Rightarrow> Inl (WrapError ''failed to parse upstream registry format: ''
                      (ErrorString ''json: cannot unmarshal''))
     | Some upstreamRegistry \<Rightarrow>
         (case convertServersToToolhive L upstreamRegistry of
            Inl err \<Rightarrow> Inl err
          | Inr servers \<Rightarrow>
              (case marshalRegistry J
                      \<lparr>Version = ''1.0.0'', LastUpdated = nowRFC3339 L,
                       Servers = Some servers, RemoteServers = None\<rparr> of
                 Inl err \<Rightarrow> Inl (WrapError ''failed to marshal ToolHive registry: '' err)
               | Inr result \<Rightarrow> Inr result)))"

definition Convert ::
  "jsonlib \<Rightarrow> registrylib \<Rightarrow> string \<Rightarrow> string \<Rightarrow> string \<Rightarrow> error + string" where
  "Convert J L data fromFormat0 toFormat0 =
    (if length data = 0 then Inl (ErrorString ''data cannot be empty'')
     else (let fromFormat = normalizeFormat fromFormat0;
               toFormat = normalizeFormat toFormat0
           in if fromFormat = toFormat then Inr data
              else if \<not> isFormatSupported fromFormat SupportedFormats
              then Inl (ErrorString (''unsupported source format: '' @ fromFormat))
              else if \<not> isFormatSupported toFormat SupportedFormats
              then Inl (ErrorString (''unsupported target format: '' @ toFormat))
              else if fromFormat = RegistryFormatUpstream \<and> toFormat = RegistryFormatToolHive
              then convertUpstreamToToolhive J L data
              else if fromFormat = RegistryFormatToolHive \<and> toFormat = RegistryFormatUpstream
              then convertToolhiveToUpstream J L data
              else Inl (ErrorString (''unsupported conversion: '' @ fromFormat @ '' -> '' @ toFormat))))"

text \<open>
  \<open>sha256.Sum256\<close> is a collaborator; its result, an array of 32 bytes, is a 256-bit
  word (first byte most significant). \<open>hex.EncodeToString\<close> writes it as 64 lowercase
  hexadecimal digits.
\<close>

definition hexDigit :: "nat \<Rightarrow> char" where
  "hexDigit n = ''0123456789abcdef'' ! (n mod 16)"

definition EncodeToString :: "256 word \<Rightarrow> string" where
  "EncodeToString h = map (\<lambda>i. hexDigit (unat (take_bit 4 (drop_bit (4 * (63 - i)) h)))) [0..<64]"

definition calculateHash :: "(string \<Rightarrow> 256 word) \<Rightarrow> string \<Rightarrow> string" where
  "calculateHash Sum256 data = EncodeToString (Sum256 data)"

section \<open>The ConfigMap source handler\<close>

record ConfigMap =
  Data :: "string \<rightharpoonup> string"
  CreationTimestamp :: Time
  ManagedFieldTimes :: "Time option list"

text \<open>
  What the handler and the API service read from the cluster: the declaration and
  ConfigMaps, each by name and namespace.
\<close>

record reader =
  getMCPRegistry :: "string \<Rightarrow> string \<Rightarrow> error + MCPRegistry"
  getConfigMap :: "string \<Rightarrow> string \<Rightarrow> error + ConfigMap"

definition ConfigMapSourceType :: string where
  "ConfigMapSourceType = ''configmap''"

definition DefaultRegistryKey :: string where
  "DefaultRegistryKey = ''registry.json''"

definition quoted :: "string \<Rightarrow> string" where
  "quoted s = CHR 0x27 # s @ [CHR 0x27]"

text \<open>
  \<open>Validate\<close> returns its error and the source as it leaves it: with the default key
  filled in when validation passes.
\<close>

definition Validate :: "MCPRegistrySource \<Rightarrow> error option \<times> MCPRegistrySource" where
  "Validate source =
    (if SourceType source \<noteq> ConfigMapSourceType
     then (Some (SourceHandlerError ConfigMapSourceType ''validate'' ''source type mismatch''
                   (ErrorString (''expected '' @ ConfigMapSourceType @ '', got '' @ SourceType source))),
           source)
     else (case SourceConfigMap source of
             None \<Rightarrow>
               (Some (SourceHandlerError ConfigMapSourceType ''validate''
                        ''configmap configuration is required'' ErrValidationFailed), source)
           | Some cm \<Rightarrow>
               if ConfigMapName cm = []
               then (Some (SourceHandlerError ConfigMapSourceType ''validate''
                             ''configmap name is required'' ErrValidationFailed), source)
               else if ConfigMapKey cm = []
               then (None, source\<lparr>SourceConfigMap := Some (cm\<lparr>ConfigMapKey := DefaultRegistryKey\<rparr>)\<rparr>)
               else (None, source)))"

record SyncResult =
  ResultData :: string
  ResultHash :: string
  ResultServerCount :: int
  LastModified :: Time
  ResultFormat :: string

text \<open>The zero \<open>time.Time\<close> (year 1), in nanoseconds before the epoch.\<close>

definition zeroTime :: Time where
  "zeroTime = - 62135596800 * Second"

definition lastModifiedOf :: "ConfigMap \<Rightarrow> Time" where
  "lastModifiedOf configMap =
    foldl (\<lambda>lastModified managedFieldTime.
             case managedFieldTime of
               Some t \<Rightarrow> if t > lastModified then t else lastModified
             | None \<Rightarrow> lastModified)
          (if CreationTimestamp configMap > zeroTime then CreationTimestamp configMap else zeroTime)
          (ManagedFieldTimes configMap)"

text \<open>
  \<open>Sync\<close> of the ConfigMap source handler: validate, read the ConfigMap in the
  source's namespace (or the declaration's), take the data under the key, decode it,
  hash the raw data, detect its format and convert it to the target format when they
  differ. After a passed validation the ConfigMap block is present, so the branch for
  a missing block is never taken. The server count is the length of the decoded
  servers map.
\<close>

definition Sync ::
  "jsonlib \<Rightarrow> registrylib \<Rightarrow> (string \<Rightarrow> 256 word) \<Rightarrow> reader \<Rightarrow> MCPRegistry \<Rightarrow> error + SyncResult" where
  "Sync J L Sum256 cl registry =
    (case Validate (Source (Spec registry)) of
       (Some err, source) \<Rightarrow> Inl err
     | (None, source) \<Rightarrow>
         (case SourceConfigMap source of
            None \<Rightarrow> Inl (SourceHandlerError ConfigMapSourceType ''validate''
                           ''configmap configuration is required'' ErrValidationFailed)
          | Some cmSource \<Rightarrow>
              (let namespace = (if ConfigMapNamespace cmSource = [] then Namespace registry
                                else ConfigMapNamespace cmSource)
               in case getConfigMap cl (ConfigMapName cmSource) namespace of
                    Inl err \<Rightarrow>
                      if IsNotFound err
                      then Inl (SourceHandlerError ConfigMapSourceType ''sync''
                                  (''ConfigMap '' @ quoted (ConfigMapName cmSource)
                                     @ '' not found in namespace '' @ quoted namespace)
                                  ErrSourceNotFound)
                      else Inl (SourceHandlerError ConfigMapSourceType ''sync''
                                  ''failed to fetch ConfigMap'' err)
                  | Inr configMap \<Rightarrow>
                      (case Data configMap (ConfigMapKey cmSource) of
                         None \<Rightarrow>
                           Inl (SourceHandlerError ConfigMapSourceType ''sync''
                                  (''key '' @ quoted (ConfigMapKey cmSource)
                                     @ '' not found in ConfigMap '' @ quoted (ConfigMapName cmSource))
                                  ErrSourceNotFound)
                       | Some data \<Rightarrow>
                           (case UnmarshalRegistryData J data of
                              None \<Rightarrow>
                                Inl (SourceHandlerError ConfigMapSourceType ''sync''
                                       (''invalid JSON in ConfigMap key ''
                                          @ quoted (ConfigMapKey cmSource))
                                       ErrInvalidData)
                            | Some registryData \<Rightarrow>
                                (let hash = calculateHash Sum256 data;
                                     lastModified = lastModifiedOf configMap;
                                     serverCount = len_map (DataServers registryData);
                                     targetFormat = (if SpecFormat (Spec registry) = []
                                                     then RegistryFormatToolHive
                                                     else SpecFormat (Spec registry));
                                     sourceFormat = (case DetectFormat J data of
                                                       Inl err \<Rightarrow> targetFormat
                                                     | Inr detected \<Rightarrow> detected)
                                 in if sourceFormat \<noteq> targetFormat
                                    then (case Convert J L data sourceFormat targetFormat of
                                            Inl err \<Rightarrow>
                                              Inl (SourceHandlerError ConfigMapSourceType ''conversion''
                                                     (''failed to convert from '' @ sourceFormat
                                                        @ '' to '' @ targetFormat @ '' format'') err)
                                          | Inr convertedBytes \<Rightarrow>
                                              Inr \<lparr>ResultData = convertedBytes, ResultHash = hash,
                                                   ResultServerCount = serverCount,
                                                   LastModified = lastModified,
                                                   ResultFormat = targetFormat\<rparr>)
                                    else Inr \<lparr>ResultData = data, ResultHash = hash,
                                             ResultServerCount = serverCount,
                                             LastModified = lastModified,
                                             ResultFormat = targetFormat\<rparr>))))))"

section \<open>The registry API service\<close>

record ServerConfig =
  RegistryName :: string
  RegistryNamespace :: string

record ErrorResponse =
  ErrorText :: string
  ErrorMessage :: string
  ErrorCode :: nat

record ServerListResponse =
  ListServers :: "(string \<times> json) list"
  ListCount :: int
  ListFormat :: string

datatype body =
    PlainBody string
  | ErrorBody ErrorResponse
  | ServerListBody ServerListResponse

record httpResponse =
  statusCode :: nat
  responseBody :: body

definition StorageConfigMapKeyData :: string where
  "StorageConfigMapKeyData = ''registry.json''"

text \<open>\<open>http.StatusText\<close> for the codes the handlers write.\<close>

definition StatusText :: "nat \<Rightarrow> string" where
  "StatusText c =
    (if c = 400 then ''Bad Request''
     else if c = 404 then ''Not Found''
     else if c = 500 then ''Internal Server Error''
     else if c = 503 then ''Service Unavailable''
     else if c = 200 then ''OK''
     else [])"

definition writeErrorResponse :: "string \<Rightarrow> nat \<Rightarrow> httpResponse" where
  "writeErrorResponse message c =
    \<lparr>statusCode = c,
     responseBody = ErrorBody \<lparr>ErrorText = StatusText c, ErrorMessage = message, ErrorCode = c\<rparr>\<rparr>"

text \<open>
  \<open>handleReadiness\<close>: one read of the declaration; \<open>http.Error\<close> writes the message
  and a newline.
\<close>

definition handleReadiness :: "ServerConfig \<Rightarrow> reader \<Rightarrow> httpResponse" where
  "handleReadiness config cl =
    (case getMCPRegistry cl (RegistryName config) (RegistryNamespace config) of
       Inl err \<Rightarrow>
         \<lparr>statusCode = 503, responseBody = PlainBody ''Not ready: cannot access registry\<newline>''\<rparr>
     | Inr registry \<Rightarrow> \<lparr>statusCode = 200, responseBody = PlainBody ''Ready''\<rparr>)"

definition getRegistryData :: "ServerConfig \<Rightarrow> reader \<Rightarrow> error + string" where
  "getRegistryData config cl =
    (case getMCPRegistry cl (RegistryName config) (RegistryNamespace config) of
       Inl err \<Rightarrow> Inl (WrapError ''failed to get MCPRegistry: '' err)
     | Inr registry \<Rightarrow>
         (case StorageRef (Status registry) of
            None \<Rightarrow> Inl (ErrorString ''no storage reference found in registry status'')
          | Some ref \<Rightarrow>
              (case getConfigMap cl (StorageName ref) (StorageNamespace ref) of
                 Inl err \<Rightarrow> Inl (WrapError ''failed to get storage ConfigMap: '' err)
               | Inr configMap \<Rightarrow>
                   (case Data configMap StorageConfigMapKeyData of
                      None \<Rightarrow> Inl (ErrorString ''no registry data found in storage ConfigMap'')
                    | Some data \<Rightarrow> Inr data))))"

definition convertRegistryFormat ::
  "jsonlib \<Rightarrow> registrylib \<Rightarrow> string \<Rightarrow> string \<Rightarrow> error + string" where
  "convertRegistryFormat J L data targetFormat =
    (let currentFormat = (case DetectFormat J data of
                            Inl err \<Rightarrow> targetFormat
                          | Inr detected \<Rightarrow> detected)
     in if currentFormat \<noteq> targetFormat
        then Convert J L data currentFormat targetFormat
        else Inr data)"

fun contains :: "string list \<Rightarrow> string \<Rightarrow> bool" where
  "contains [] item = False"
| "contains (s # rest) item = (if s = item then True else contains rest item)"

text \<open>
  \<open>handleListServers\<close>; \<open>format\<close> is the value of the query parameter (empty when it
  is absent). After the conversion the handler decodes the bytes into a generic map
  and takes the value under the key \<open>servers\<close> when that is an object, and an empty
  map otherwise.
\<close>

definition handleListServers ::
  "jsonlib \<Rightarrow> registrylib \<Rightarrow> ServerConfig \<Rightarrow> reader \<Rightarrow> string \<Rightarrow> httpResponse" where
  "handleListServers J L config cl format =
    (let requestedFormat = (if format = [] then RegistryFormatToolHive else format)
     in if \<not> contains SupportedFormats requestedFormat
        then writeErrorResponse
               (''Unsupported format: '' @ requestedFormat
                  @ ''. Supported formats: [toolhive upstream]'') 400
        else (case getRegistryData config cl of
                Inl err \<Rightarrow> writeErrorResponse ''Failed to retrieve registry data'' 500
              | Inr registryData \<Rightarrow>
                  (case convertRegistryFormat J L registryData requestedFormat of
                     Inl err \<Rightarrow> writeErrorResponse ''Failed to convert registry format'' 500
                   | Inr convertedData \<Rightarrow>
                       (case UnmarshalGeneric J convertedData of
                          None \<Rightarrow> writeErrorResponse ''Failed to parse registry data'' 500
                        | Some serversData \<Rightarrow>
                            (let servers = (case map_of serversData ''servers'' of
                                              Some (JObject entries) \<Rightarrow> entries
                                            | other \<Rightarrow> [])
                             in \<lparr>statusCode = 200,
                                 responseBody = ServerListBody
                                   \<lparr>ListServers = servers, ListCount = int (length servers),
                                    ListFormat = requestedFormat\<rparr>\<rparr>)))))"

section \<open>The words of the format heuristic\<close>

text \<open>
  The conditions the spec names for format detection, over the decodings of a
  payload: it has the canonical shape when it decodes into a registry with a version
  and a servers map; an upstream value is named when it is not nil and its nested
  \<open>server.name\<close> is non-empty; and a payload's upstream map may have its first visited
  entry named, or every entry named (and at least one entry).
\<close>

definition canonicalShape :: "jsonlib \<Rightarrow> string \<Rightarrow> bool" where
  "canonicalShape J data =
    (case UnmarshalRegistry J data of
       Some r \<Rightarrow> Version r \<noteq> [] \<and> Servers r \<noteq> None
     | None \<Rightarrow> False)"

definition named :: "UpstreamServerDetail option \<Rightarrow> bool" where
  "named d = (case d of Some detail \<Rightarrow> UpstreamName (Server detail) \<noteq> [] | None \<Rightarrow> False)"

definition firstEntryNamed :: "jsonlib \<Rightarrow> string \<Rightarrow> bool" where
  "firstEntryNamed J data =
    (case UnmarshalUpstream J data of
       Some ((serverName, d) # others) \<Rightarrow> named d
     | other \<Rightarrow> False)"

definition everyEntryNamed :: "jsonlib \<Rightarrow> string \<Rightarrow> bool" where
  "everyEntryNamed J data =
    (case UnmarshalUpstream J data of
       Some entries \<Rightarrow> entries \<noteq> [] \<and> list_all (\<lambda>entry. named (snd entry)) entries
     | None \<Rightarrow> False)"

definition someEntryUnnamed :: "jsonlib \<Rightarrow> string \<Rightarrow> bool" where
  "someEntryUnnamed J data =
    (case UnmarshalUpstream J data of
       Some entries \<Rightarrow> list_ex (\<lambda>entry. \<not> named (snd entry)) entries
     | None \<Rightarrow> False)"

definition unknownFormat :: error where
  "unknownFormat =
    ErrorString ''unable to detect registry format: data does not match any known format''"

text \<open>An operation fails with an error of a kind when the kind is in its cause chain.\<close>

definition failsWith :: "error + 'a \<Rightarrow> error \<Rightarrow> bool" where
  "failsWith r kind = (case r of Inl err \<Rightarrow> errors_Is err kind | Inr x \<Rightarrow> False)"

section \<open>Concrete declarations and environments\<close>

text \<open>
  A declaration, a cluster and collaborators on which the theorems below are
  evaluated: a Ready declaration with two servers recorded, an environment in which
  every call succeeds, and variants of it in which one call fails.
\<close>

definition exampleCheckers :: SyncCheckers where
  "exampleCheckers =
    \<lparr>IsDataChanged = (\<lambda>r. (False, None)),
     IsManualSyncRequested = (\<lambda>r. (False, ''no-annotations'')),
     IsIntervalSyncNeeded = (\<lambda>r. (False, 0, None))\<rparr>"

definition exampleStorageRef :: StorageReference where
  "exampleStorageRef =
    \<lparr>StorageType = ''configmap'', StorageName = ''demo-registry-storage'',
     StorageNamespace = ''default'', StorageKey = ''registry.json''\<rparr>"

definition exampleStatus :: MCPRegistryStatus where
  "exampleStatus =
    \<lparr>Conditions = [], Phase = ''Ready'', Message = ''Registry is ready and synchronized'',
     LastSyncTime = Some 100, LastSyncHash = ''abc123'', ServerCount = 2, SyncAttempts = 0,
     NextRetryTime = None, StorageRef = Some exampleStorageRef,
     LastManualSyncTrigger = ''t0''\<rparr>"

definition exampleSpec :: MCPRegistrySpec where
  "exampleSpec =
    \<lparr>DisplayName = ''Demo'',
     Source = \<lparr>SourceType = ''configmap'', SourceFormat = ''toolhive'',
               SourceConfigMap = Some \<lparr>ConfigMapName = ''demo-data'', ConfigMapNamespace = [],
                                       ConfigMapKey = ''registry.json''\<rparr>\<rparr>,
     SpecFormat = [],
     SyncPolicy = None,
     SpecFilter = None\<rparr>"

definition exampleRegistry :: MCPRegistry where
  "exampleRegistry =
    \<lparr>Name = ''demo'', Namespace = ''default'', Annotations = None,
     DeletionTimestamp = None,
     Finalizers = [''mcpregistry.toolhive.stacklok.dev/finalizer''],
     Spec = exampleSpec, Status = exampleStatus\<rparr>"

definition withPhase :: "MCPRegistryPhase \<Rightarrow> Time option \<Rightarrow> MCPRegistry \<Rightarrow> MCPRegistry" where
  "withPhase p t r = r\<lparr>Status := (Status r)\<lparr>Phase := p, NextRetryTime := t\<rparr>\<rparr>"

definition filesystemServer :: ImageMetadata where
  "filesystemServer =
    \<lparr>ServerName = ''filesystem'', Description = ''Filesystem operations server'',
     Tier = ''Official'', Transport = ''stdio'', ServerTags = [''files''],
     Image = ''mcp/filesystem:latest''\<rparr>"

definition gitServer :: ImageMetadata where
  "gitServer =
    \<lparr>ServerName = ''git'', Description = ''Git operations server'',
     Tier = ''Community'', Transport = ''stdio'', ServerTags = [],
     Image = ''mcp/git:latest''\<rparr>"

definition twoServerRegistry :: Registry where
  "twoServerRegistry =
    \<lparr>Version = ''1.0.0'', LastUpdated = ''2025-09-02T00:17:21Z'',
     Servers = Some [(''filesystem'', Some filesystemServer), (''git'', Some gitServer)],
     RemoteServers = None\<rparr>"

definition emptyRegistryData :: Registry where
  "emptyRegistryData =
    \<lparr>Version = ''1.0.0'', LastUpdated = ''2025-09-03T00:00:00Z'',
     Servers = Some [], RemoteServers = None\<rparr>"

definition emptyFetch :: FetchResult where
  "emptyFetch =
    \<lparr>FetchedRegistry = emptyRegistryData, Hash = ''4f53cda18c2b'',
     FetchedServerCount = 0, FetchedFormat = ''toolhive''\<rparr>"

definition exampleSetStatusCondition :: "Condition list \<Rightarrow> Condition \<Rightarrow> Condition list" where
  "exampleSetStatusCondition conds c =
    (if ConditionType c \<in> set (map ConditionType conds)
     then map (\<lambda>d. if ConditionType d = ConditionType c then c else d) conds
     else conds @ [c])"

definition exampleEnv :: env where
  "exampleEnv =
    \<lparr>timeNow = 1000,
     checkers = exampleCheckers,
     getErr = (\<lambda>history. None),
     statusUpdateErr = (\<lambda>history. None),
     updateErr = (\<lambda>history. None),
     createHandlerErr = (\<lambda>history. None),
     validateErr = (\<lambda>history. None),
     fetchRegistry = (\<lambda>history. Inr emptyFetch),
     applyFilters = (\<lambda>registry f. Inr registry),
     storeErr = (\<lambda>history. None),
     deleteErr = (\<lambda>history. None),
     getStorageReference = (\<lambda>r. Some exampleStorageRef),
     setStatusCondition = exampleSetStatusCondition,
     isManualSync = (\<lambda>reason. reason = ReasonManualWithChanges \<or> reason = ReasonManualNoChanges),
     parseDuration = (\<lambda>s. if s = ''1h'' then Inr Hour else Inl (ErrorString ''time: invalid duration''))\<rparr>"

definition exampleWorld :: world where
  "exampleWorld = \<lparr>stored = exampleRegistry, storage = Some twoServerRegistry, calls = []\<rparr>"

text \<open>A declaration with one failure on record, and a storage manager that fails.\<close>

definition failedOnce :: MCPRegistry where
  "failedOnce =
    exampleRegistry\<lparr>Status := exampleStatus\<lparr>Phase := ''Failed'', SyncAttempts := 1,
                                               NextRetryTime := Some 900\<rparr>\<rparr>"

definition storeFailsEnv :: env where
  "storeFailsEnv = exampleEnv\<lparr>storeErr := (\<lambda>history. Some (ErrorString ''configmaps is forbidden''))\<rparr>"

text \<open>
  A declaration marked for deletion, and a storage manager whose deletion fails; a
  declaration whose trigger annotation has a new value, and one whose source data
  did not change.
\<close>

definition deletingRegistry :: MCPRegistry where
  "deletingRegistry = exampleRegistry\<lparr>DeletionTimestamp := Some 500\<rparr>"

definition deletingWorld :: world where
  "deletingWorld = exampleWorld\<lparr>stored := deletingRegistry\<rparr>"

definition deleteFailsEnv :: env where
  "deleteFailsEnv =
    exampleEnv\<lparr>deleteErr := (\<lambda>history. Some (ErrorString ''failed to delete storage ConfigMap''))\<rparr>"

definition statusWriteFailsEnv :: env where
  "statusWriteFailsEnv =
    exampleEnv\<lparr>statusUpdateErr := (\<lambda>history. Some (StatusError 409 ''the object has been modified''))\<rparr>"




section \<open>Concrete payloads and a table of the JSON library on them\<close>

text \<open>
  Three JSON texts: a canonical registry with the one server \<open>filesystem\<close>, an
  upstream document for the same server, and an upstream map of two entries of which
  only \<open>alpha\<close> has a nested \<open>server.name\<close>. \<open>tableJson\<close> lists what \<open>encoding/json\<close>
  does on them: the canonical text decodes into a registry and not into an upstream
  map (its \<open>version\<close> is a string, not an envelope); an upstream text decodes into
  the registry struct with no field set, since none of its keys is a field of it.
\<close>

definition canonicalText :: string where
  \<open>canonicalText = ''{"version":"1.0.0","last_updated":"2025-09-02T00:17:21Z","servers":{"filesystem":{"name":"filesystem","description":"Filesystem operations server","image":"mcp/filesystem:latest"}}}''\<close>

definition upstreamText :: string where
  \<open>upstreamText = ''{"filesystem":{"server":{"name":"filesystem","description":"Filesystem operations server"}}}''\<close>

definition mixedText :: string where
  \<open>mixedText = ''{"alpha":{"server":{"name":"alpha","description":"first"}},"beta":{"server":{"description":"second"}}}''\<close>

definition notJsonText :: string where
  "notJsonText = ''invalid json data''"

definition oneServerRegistry :: Registry where
  "oneServerRegistry =
    \<lparr>Version = ''1.0.0'', LastUpdated = ''2025-09-02T00:17:21Z'',
     Servers = Some [(''filesystem'', Some filesystemServer)], RemoteServers = None\<rparr>"

definition zeroRegistry :: Registry where
  "zeroRegistry = \<lparr>Version = [], LastUpdated = [], Servers = None, RemoteServers = None\<rparr>"

definition filesystemUpstream :: UpstreamServerDetail where
  "filesystemUpstream =
    \<lparr>Server = \<lparr>UpstreamName = ''filesystem'',
                UpstreamDescription = ''Filesystem operations server''\<rparr>\<rparr>"

definition alphaUpstream :: UpstreamServerDetail where
  "alphaUpstream = \<lparr>Server = \<lparr>UpstreamName = ''alpha'', UpstreamDescription = ''first''\<rparr>\<rparr>"

definition betaUpstream :: UpstreamServerDetail where
  "betaUpstream = \<lparr>Server = \<lparr>UpstreamName = [], UpstreamDescription = ''second''\<rparr>\<rparr>"

definition filesystemJson :: json where
  "filesystemJson =
    JObject [(''name'', JString ''filesystem''),
             (''description'', JString ''Filesystem operations server''),
             (''image'', JString ''mcp/filesystem:latest'')]"

definition filesystemEnvelopeJson :: json where
  "filesystemEnvelopeJson =
    JObject [(''server'', JObject [(''name'', JString ''filesystem''),
                                   (''description'', JString ''Filesystem operations server'')])]"

definition tableJson :: jsonlib where
  "tableJson =
    \<lparr>valid = (\<lambda>d. d = canonicalText \<or> d = upstreamText \<or> d = mixedText),
     decodeRegistry =
       (\<lambda>d. if d = canonicalText then Some oneServerRegistry
             else if d = upstreamText \<or> d = mixedText then Some zeroRegistry
             else None),
     decodeUpstream =
       (\<lambda>d. if d = upstreamText then Some [(''filesystem'', Some filesystemUpstream)]
             else if d = mixedText
             then Some [(''alpha'', Some alphaUpstream), (''beta'', Some betaUpstream)]
             else None),
     decodeRegistryData =
       (\<lambda>d. if d = canonicalText
             then Some \<lparr>DataSchema = [], DataVersion = ''1.0.0'',
                        DataServers = Some [(''filesystem'',
                          \<lparr>SourceDescription = ''Filesystem operations server'',
                           SourceTransport = [], SourceImage = ''mcp/filesystem:latest''\<rparr>)]\<rparr>
             else if d = upstreamText \<or> d = mixedText
             then Some \<lparr>DataSchema = [], DataVersion = [], DataServers = None\<rparr>
             else None),
     decodeGeneric =
       (\<lambda>d. if d = canonicalText
             then Some [(''version'', JString ''1.0.0''),
                        (''last_updated'', JString ''2025-09-02T00:17:21Z''),
                        (''servers'', JObject [(''filesystem'', filesystemJson)])]
             else if d = upstreamText then Some [(''filesystem'', filesystemEnvelopeJson)]
             else None),
     marshalUpstream =
       (\<lambda>m. if m = [(''filesystem'', Some filesystemUpstream)] then Inr upstreamText
             else Inl (ErrorString ''json: unsupported value'')),
     marshalRegistry = (\<lambda>r. Inl (ErrorString ''json: unsupported value''))\<rparr>"

definition tableRegistrylib :: registrylib where
  "tableRegistrylib =
    \<lparr>ConvertToolhiveToUpstream =
       (\<lambda>s. if s = Some filesystemServer then Inr (Some filesystemUpstream)
             else Inl (ErrorString ''cannot convert server'')),
     ConvertUpstreamToToolhive =
       (\<lambda>s. if s = Some filesystemUpstream then Inr (Inl (Some filesystemServer))
             else Inl (ErrorString ''cannot convert server'')),
     nowRFC3339 = ''2025-09-03T00:00:00Z''\<rparr>"

definition demoConfig :: ServerConfig where
  "demoConfig = \<lparr>RegistryName = ''demo'', RegistryNamespace = ''default''\<rparr>"

text \<open>
  A cluster that holds the Ready declaration and its storage ConfigMap with the
  canonical text; one that holds a declaration without a storage reference; and one
  that holds a source ConfigMap.
\<close>

definition storageConfigMap :: ConfigMap where
  "storageConfigMap =
    \<lparr>Data = [''registry.json'' \<mapsto> canonicalText], CreationTimestamp = 10,
     ManagedFieldTimes = [Some 20]\<rparr>"

definition demoReader :: reader where
  "demoReader =
    \<lparr>getMCPRegistry =
       (\<lambda>name namespace. if name = ''demo'' \<and> namespace = ''default'' then Inr exampleRegistry
                          else Inl (StatusError 404 ''mcpregistries not found'')),
     getConfigMap =
       (\<lambda>name namespace.
          if name = ''demo-registry-storage'' \<and> namespace = ''default'' then Inr storageConfigMap
          else if name = ''demo-data'' \<and> namespace = ''default''
          then Inr \<lparr>Data = [''registry.json'' \<mapsto> canonicalText, ''broken.json'' \<mapsto> notJsonText],
                    CreationTimestamp = 10, ManagedFieldTimes = []\<rparr>
          else Inl (StatusError 404 ''configmaps not found''))\<rparr>"

definition pendingRegistry :: MCPRegistry where
  "pendingRegistry =
    exampleRegistry\<lparr>Status := exampleStatus\<lparr>Phase := ''Pending'', StorageRef := None\<rparr>\<rparr>"

definition pendingReader :: reader where
  "pendingReader = demoReader\<lparr>getMCPRegistry := (\<lambda>name namespace. Inr pendingRegistry)\<rparr>"

definition withConfigMapSource :: "string \<Rightarrow> string \<Rightarrow> MCPRegistry" where
  "withConfigMapSource name key =
    exampleRegistry\<lparr>Spec := exampleSpec\<lparr>Source :=
      \<lparr>SourceType = ''configmap'', SourceFormat = ''toolhive'',
       SourceConfigMap = Some \<lparr>ConfigMapName = name, ConfigMapNamespace = [],
                               ConfigMapKey = key\<rparr>\<rparr>\<rparr>\<rparr>"

definition constantSum256 :: "string \<Rightarrow> 256 word" where
  "constantSum256 data = (if data = canonicalText then 0xABCD else 0)"

section \<open>Properties of ShouldSync\<close>

lemmas phase_defs =
  MCPRegistryPhasePending_def MCPRegistryPhaseSyncing_def MCPRegistryPhaseReady_def
  MCPRegistryPhaseFailed_def MCPRegistryPhaseTerminating_def

lemmas reason_defs =
  ReasonAlreadyInProgress_def ReasonRegistryNotReady_def ReasonRetryBackoffActive_def
  ReasonSourceDataChanged_def ReasonErrorCheckingChanges_def ReasonManualWithChanges_def
  ReasonManualNoChanges_def ReasonErrorParsingInterval_def ReasonErrorCheckingSyncNeed_def
  ReasonUpToDateWithPolicy_def ReasonUpToDateNoPolicy_def

text \<open>
  Claim C1. ShouldSync follows the first-match order of the phase rules: a declaration
  whose phase is Syncing gets (false, sync-already-in-progress, no next check); a
  declaration whose phase is Failed with a nextRetryTime strictly after now gets
  (false, retry-backoff-active, nextRetryTime); every other declaration whose phase is
  not Ready (Pending, the empty phase, Failed without a future nextRetryTime) gets
  (true, registry-not-ready, no next check). No error is returned in these cases.
\<close>

theorem ShouldSync_phase_rules:
  "(Phase (Status r) = MCPRegistryPhaseSyncing \<longrightarrow>
      ShouldSync s now r = (False, ''sync-already-in-progress'', None, None)) \<and>
   (Phase (Status r) = MCPRegistryPhaseFailed \<and> NextRetryTime (Status r) = Some t \<and> now < t \<longrightarrow>
      ShouldSync s now r = (False, ''retry-backoff-active'', Some t, None)) \<and>
   (Phase (Status r) \<noteq> MCPRegistryPhaseSyncing \<and> Phase (Status r) \<noteq> MCPRegistryPhaseReady \<and>
    \<not> (Phase (Status r) = MCPRegistryPhaseFailed \<and>
       (\<exists>t'. NextRetryTime (Status r) = Some t' \<and> now < t')) \<longrightarrow>
      ShouldSync s now r = (True, ''registry-not-ready'', None, None))"
  by (auto simp: ShouldSync_def phase_defs reason_defs split: option.splits)

theorem ShouldSync_phase_rules_witness:
  "ShouldSync exampleCheckers 50 (withPhase ''Syncing'' None exampleRegistry) =
     (False, ''sync-already-in-progress'', None, None) \<and>
   ShouldSync exampleCheckers 50 (withPhase ''Failed'' (Some 60) exampleRegistry) =
     (False, ''retry-backoff-active'', Some 60, None) \<and>
   ShouldSync exampleCheckers 50 (withPhase ''Failed'' (Some 50) exampleRegistry) =
     (True, ''registry-not-ready'', None, None) \<and>
   ShouldSync exampleCheckers 50 (withPhase ''Pending'' None exampleRegistry) =
     (True, ''registry-not-ready'', None, None)"
  using ShouldSync_phase_rules [of "withPhase ''Syncing'' None exampleRegistry" exampleCheckers 50]
        ShouldSync_phase_rules [of "withPhase ''Failed'' (Some 60) exampleRegistry" exampleCheckers 50 60]
        ShouldSync_phase_rules [of "withPhase ''Failed'' (Some 50) exampleRegistry" exampleCheckers 50]
        ShouldSync_phase_rules [of "withPhase ''Pending'' None exampleRegistry" exampleCheckers 50]
  by (simp add: withPhase_def phase_defs)

section \<open>Properties of the retry backoff\<close>

lemma Minute_Hour: "Hour = 60 * Minute" "Minute = 60000000000" "Hour = 3600000000000"
  by (simp_all add: Hour_def Minute_def Second_def)

lemma calculateRetryInterval_nonpositive:
  "a \<le> 0 \<Longrightarrow> calculateRetryInterval a = 5 * Minute"
  by (simp add: calculateRetryInterval_def Let_def)

lemma calculateRetryInterval_small:
  "calculateRetryInterval 1 = 5 * Minute" "calculateRetryInterval 2 = 10 * Minute"
  "calculateRetryInterval 3 = 20 * Minute" "calculateRetryInterval 4 = 40 * Minute"
  by (simp_all add: calculateRetryInterval_def Let_def Minute_Hour push_bit_eq_mult)

lemma calculateRetryInterval_capped:
  assumes "5 \<le> a"
  shows "calculateRetryInterval a = Hour"
  using assms by (simp add: calculateRetryInterval_def Let_def Minute_Hour push_bit_eq_mult)

lemma two_power_ge_16:
  assumes "4 \<le> n"
  shows "(16::int) \<le> 2 ^ n"
proof -
  have "(2::int) ^ 4 \<le> 2 ^ n"
    using assms by (intro power_increasing) simp_all
  then show ?thesis by simp
qed

lemma calculateRetryInterval_formula:
  assumes "1 \<le> a"
  shows "calculateRetryInterval a = min (5 * Minute * 2 ^ nat (a - 1)) Hour"
proof (cases "a \<le> 4")
  case True
  with assms have "a = 1 \<or> a = 2 \<or> a = 3 \<or> a = 4" by arith
  then show ?thesis
    by (auto simp: calculateRetryInterval_small Minute_Hour)
next
  case False
  then have "4 \<le> nat (a - 1)" by simp
  then have "(16::int) \<le> 2 ^ nat (a - 1)" by (rule two_power_ge_16)
  then have "Hour \<le> 5 * Minute * 2 ^ nat (a - 1)"
    by (simp add: Minute_Hour)
  with False show ?thesis
    by (simp add: calculateRetryInterval_capped)
qed

text \<open>
  No intermediate value of \<open>calculateRetryInterval\<close> leaves the range of a signed
  64-bit integer when the argument is in that range: the subtraction is done on a
  positive argument, the shift is by at most 4, and the product is at most 80 minutes.
\<close>

lemma calculateRetryInterval_int64:
  assumes "- (2 ^ 63) \<le> a" and "a < 2 ^ 63"
  shows "0 < a \<longrightarrow> - (2 ^ 63) \<le> a - 1"
    and "0 \<le> min (a - 1) 4 \<or> a \<le> 0"
    and "Minute * 5 * push_bit (nat (min (a - 1) 4)) 1 \<le> 80 * Minute"
    and "80 * Minute < 2 ^ 63"
    and "0 < calculateRetryInterval a \<and> calculateRetryInterval a \<le> Hour"
proof -
  show "0 < a \<longrightarrow> - (2 ^ 63) \<le> a - 1" by simp
  show "0 \<le> min (a - 1) 4 \<or> a \<le> 0" by arith
  have "nat (min (a - 1) 4) \<le> 4" by simp
  then have "(2::int) ^ nat (min (a - 1) 4) \<le> 2 ^ 4"
    by (intro power_increasing) simp_all
  then show "Minute * 5 * push_bit (nat (min (a - 1) 4)) 1 \<le> 80 * Minute"
    by (simp add: push_bit_eq_mult Minute_Hour)
  show "80 * Minute < 2 ^ 63" by (simp add: Minute_Hour)
  show "0 < calculateRetryInterval a \<and> calculateRetryInterval a \<le> Hour"
    by (simp add: calculateRetryInterval_def Let_def Minute_Hour push_bit_eq_mult min_def)
qed

section \<open>Properties of PerformSync\<close>

lemmas client_defs = clientGet_def clientStatusUpdate_def clientUpdate_def logCall_def

lemmas condition_defs =
  ConditionSourceAvailable_def ConditionDataValid_def ConditionSyncSuccessful_def
  conditionReasonHandlerCreationFailed_def conditionReasonValidationFailed_def
  conditionReasonFetchFailed_def conditionReasonStorageFailed_def
  conditionReasonSourceReady_def conditionReasonDataValid_def conditionReasonSyncCompleted_def

lemmas example_defs =
  exampleCheckers_def exampleStorageRef_def exampleStatus_def exampleSpec_def
  exampleRegistry_def emptyRegistryData_def emptyFetch_def exampleEnv_def exampleWorld_def
  failedOnce_def storeFailsEnv_def twoServerRegistry_def

text \<open>
  Each function that writes the status on a failure path leaves the record of the
  last successful sync in the stored declaration as it was, and leaves the storage
  alone.
\<close>

lemma updatePhaseFailedWithCondition_frame:
  assumes "updatePhaseFailedWithCondition e obj w msg ct reason cm = (err, r, w')"
  shows "sameSyncRecord (Status (stored w)) (Status (stored w')) \<and> storage w' = storage w"
  using assms
  by (auto simp: updatePhaseFailedWithCondition_def client_defs Let_def sameSyncRecord_def
           split: prod.splits option.splits)

lemma applyFinalStatusUpdate_frame:
  assumes "applyFinalStatusUpdate e obj w u = (res, r, w')"
    and "failureShaped u \<or> snd res \<noteq> None"
  shows "sameSyncRecord (Status (stored w)) (Status (stored w')) \<and> storage w' = storage w"
  using assms
  by (auto simp: applyFinalStatusUpdate_def client_defs Let_def sameSyncRecord_def failureShaped_def
                 applySyncData_def
           split: prod.splits option.splits if_splits)

lemma failureUpdate_shaped: "failureShaped (failureUpdate m ct r err a n res)"
  by (simp add: failureShaped_def failureUpdate_def)

lemma applyFilteringIfConfigured_frame:
  assumes "applyFilteringIfConfigured e obj w fr = (res, r, w')"
  shows "sameSyncRecord (Status (stored w)) (Status (stored w')) \<and> storage w' = storage w"
  using assms
  by (auto simp: applyFilteringIfConfigured_def Let_def logCall_def sameSyncRecord_def
           split: option.splits sum.splits prod.splits
           dest!: updatePhaseFailedWithCondition_frame)

lemma fetchAndProcessRegistryData_frame:
  assumes "fetchAndProcessRegistryData e obj w = (res, r, w')"
  shows "sameSyncRecord (Status (stored w)) (Status (stored w')) \<and> storage w' = storage w"
  using assms
  by (auto simp: fetchAndProcessRegistryData_def Let_def logCall_def sameSyncRecord_def
           split: option.splits sum.splits prod.splits
           dest!: updatePhaseFailedWithCondition_frame applyFilteringIfConfigured_frame)

lemma composeStatusUpdate_frame:
  assumes "composeStatusUpdate e obj w = (u, r, w1)"
  shows "sameSyncRecord (Status (stored w)) (Status (stored w1))"
proof (cases "fetchAndProcessRegistryData e obj w")
  case (fields res r0 w0)
  then have fr: "sameSyncRecord (Status (stored w)) (Status (stored w0))"
    using fetchAndProcessRegistryData_frame by blast
  have "stored w1 = stored w0"
    using assms fields
    by (auto simp: composeStatusUpdate_def Let_def logCall_def
             split: sum.splits option.splits if_splits)
  with fr show ?thesis by simp
qed

lemma composeStatusUpdate_shape:
  assumes "composeStatusUpdate e obj w = (u, r, w1)"
  shows "(uPhase u = MCPRegistryPhaseReady \<and> uMessage u = ''Registry is ready and synchronized'') \<or>
         (uPhase u = MCPRegistryPhaseFailed \<and> failureShaped u)"
  using assms
  by (auto simp: composeStatusUpdate_def Let_def failureUpdate_shaped successUpdate_def
           split: prod.splits sum.splits option.splits if_splits)
     (auto simp: failureUpdate_def)

text \<open>
  Claim C10. Every failing PerformSync path preserves the record of the last
  successful sync. A path fails when the status update it composes has phase Failed,
  or when PerformSync returns an error (the refresh or the status write failed). On
  every such path the composed update leaves lastSyncTime, lastSyncHash, serverCount,
  storageRef and lastManualSyncTrigger unset (nil, empty or zero), the final update
  applies these fields only when they are set, and so the declaration held by the
  cluster has, after PerformSync, the values of these five fields it had before. (The
  other five status fields are phase, message, conditions, syncAttempts and
  nextRetryTime.)
\<close>

theorem PerformSync_failure_preserves_last_sync:
  assumes "uPhase (fst (composeStatusUpdate e mcpRegistry w)) = MCPRegistryPhaseFailed \<or>
           snd (fst (PerformSync e mcpRegistry w)) \<noteq> None"
  shows "(let before = Status (stored w);
              after = Status (stored (snd (snd (PerformSync e mcpRegistry w))))
          in LastSyncTime after = LastSyncTime before \<and>
             LastSyncHash after = LastSyncHash before \<and>
             StorageRef after = StorageRef before \<and>
             ServerCount after = ServerCount before \<and>
             LastManualSyncTrigger after = LastManualSyncTrigger before) \<and>
         (uPhase (fst (composeStatusUpdate e mcpRegistry w)) = MCPRegistryPhaseFailed \<longrightarrow>
            failureShaped (fst (composeStatusUpdate e mcpRegistry w)))"
proof -
  obtain update r w1 where c: "composeStatusUpdate e mcpRegistry w = (update, r, w1)"
    by (cases "composeStatusUpdate e mcpRegistry w") auto
  obtain result err r' w' where p: "PerformSync e mcpRegistry w = ((result, err), r', w')"
    by (cases "PerformSync e mcpRegistry w") auto
  have a: "sameSyncRecord (Status (stored w)) (Status (stored w1))"
    using c by (rule composeStatusUpdate_frame)
  have ap: "applyFinalStatusUpdate e r w1 update = ((result, err), r', w')"
    using c p by (simp add: PerformSync_def)
  have shape: "uPhase update = MCPRegistryPhaseFailed \<longrightarrow> failureShaped update"
    using composeStatusUpdate_shape [OF c] by (auto simp: phase_defs)
  have "failureShaped update \<or> snd (result, err) \<noteq> None"
    using shape assms c p by auto
  then have b: "sameSyncRecord (Status (stored w1)) (Status (stored w'))"
    using applyFinalStatusUpdate_frame [OF ap] by simp
  have "sameSyncRecord (Status (stored w)) (Status (stored w'))"
    using a b by (simp add: sameSyncRecord_def)
  with shape c p show ?thesis by (simp add: sameSyncRecord_def Let_def)
qed

theorem PerformSync_failure_preserves_last_sync_witness:
  "uPhase (fst (composeStatusUpdate storeFailsEnv failedOnce (exampleWorld\<lparr>stored := failedOnce\<rparr>))) =
     ''Failed'' \<and>
   LastSyncTime (Status (stored (snd (snd (PerformSync storeFailsEnv failedOnce
     (exampleWorld\<lparr>stored := failedOnce\<rparr>)))))) = Some 100 \<and>
   LastSyncHash (Status (stored (snd (snd (PerformSync storeFailsEnv failedOnce
     (exampleWorld\<lparr>stored := failedOnce\<rparr>)))))) = ''abc123'' \<and>
   StorageRef (Status (stored (snd (snd (PerformSync storeFailsEnv failedOnce
     (exampleWorld\<lparr>stored := failedOnce\<rparr>)))))) = Some exampleStorageRef \<and>
   ServerCount (Status (stored (snd (snd (PerformSync storeFailsEnv failedOnce
     (exampleWorld\<lparr>stored := failedOnce\<rparr>)))))) = 2 \<and>
   LastManualSyncTrigger (Status (stored (snd (snd (PerformSync storeFailsEnv failedOnce
     (exampleWorld\<lparr>stored := failedOnce\<rparr>)))))) = ''t0''"
proof -
  have h: "uPhase (fst (composeStatusUpdate storeFailsEnv failedOnce
             (exampleWorld\<lparr>stored := failedOnce\<rparr>))) = MCPRegistryPhaseFailed"
    by code_simp
  have s: "Status (stored (exampleWorld\<lparr>stored := failedOnce\<rparr>)) =
             exampleStatus\<lparr>Phase := ''Failed'', SyncAttempts := 1, NextRetryTime := Some 900\<rparr>"
    by (simp add: failedOnce_def exampleRegistry_def)
  show ?thesis
    using PerformSync_failure_preserves_last_sync [OF disjI1 [OF h]] h
    unfolding s Let_def
    by (simp add: exampleStatus_def phase_defs)
qed

lemma applySyncData_zero_count:
  "sdServerCount sd \<le> 0 \<Longrightarrow> ServerCount (applySyncData sd st) = ServerCount st"
  by (simp add: applySyncData_def Let_def)

text \<open>
  Claim C3 fails on the code. When a sync succeeds with a registry that holds no
  server, the composed update carries serverCount 0, and \<open>applyFinalStatusUpdate\<close>
  copies the count only when it is positive: the status keeps the count of the
  previous sync. Here the declaration had two servers recorded; the sync stores the
  empty registry, ends Ready, and the status still says two.
\<close>

theorem PerformSync_empty_registry_keeps_serverCount:
  "snd (fst (PerformSync exampleEnv exampleRegistry exampleWorld)) = None \<and>
   Phase (Status (stored (snd (snd (PerformSync exampleEnv exampleRegistry exampleWorld))))) = ''Ready'' \<and>
   storage (snd (snd (PerformSync exampleEnv exampleRegistry exampleWorld))) = Some emptyRegistryData \<and>
   len_map (Servers emptyRegistryData) + len_map (RemoteServers emptyRegistryData) = 0 \<and>
   ServerCount (Status (stored (snd (snd (PerformSync exampleEnv exampleRegistry exampleWorld))))) = 2"
  by code_simp

section \<open>The backoff sequence\<close>

text \<open>
  The function follows its documented formula: for attempts >= 1 it is
  min(5 minutes * 2^(attempts-1), 1 hour), for attempts <= 0 it is 5 minutes, and its
  values at attempts = 1, 2, 3, 4, 5, 6 are 5m, 10m, 20m, 40m, 1h, 1h (1h from 5 on).
\<close>

lemma calculateRetryInterval_sequence:
  "(1 \<le> a \<longrightarrow> calculateRetryInterval a = min (5 * Minute * 2 ^ nat (a - 1)) Hour) \<and>
   (a \<le> 0 \<longrightarrow> calculateRetryInterval a = 5 * Minute) \<and>
   map calculateRetryInterval [1, 2, 3, 4, 5, 6] =
     [5 * Minute, 10 * Minute, 20 * Minute, 40 * Minute, Hour, Hour] \<and>
   (5 \<le> a \<longrightarrow> calculateRetryInterval a = Hour)"
proof -
  have f: "1 \<le> a \<longrightarrow> calculateRetryInterval a = min (5 * Minute * 2 ^ nat (a - 1)) Hour"
    by (simp add: calculateRetryInterval_formula)
  have z: "a \<le> 0 \<longrightarrow> calculateRetryInterval a = 5 * Minute"
    by (simp add: calculateRetryInterval_nonpositive)
  have c: "5 \<le> a \<longrightarrow> calculateRetryInterval a = Hour"
    by (simp add: calculateRetryInterval_capped)
  have v: "map calculateRetryInterval [1, 2, 3, 4, 5, 6] =
             [5 * Minute, 10 * Minute, 20 * Minute, 40 * Minute, Hour, Hour]"
    by (simp add: calculateRetryInterval_small calculateRetryInterval_capped)
  from f z v c show ?thesis by blast
qed

text \<open>
  The call sites: whenever \<open>PerformSync\<close> composes a fetch or storage failure with a
  retry, the update that records attempt number k takes its delay from
  \<open>calculateRetryInterval (k - 1)\<close>, because the function is called with
  \<open>Status.SyncAttempts\<close> as it stands before the current failure is counted.
\<close>

lemma composeStatusUpdate_backoff:
  assumes "scheduledRetry (fst (composeStatusUpdate e mcpRegistry w)) = Some (reason, k, d, t)"
    and "reason = conditionReasonFetchFailed \<or> reason = conditionReasonStorageFailed"
  shows "d = calculateRetryInterval (k - 1) \<and> t = timeNow e + d"
  using assms
  by (auto simp: composeStatusUpdate_def Let_def scheduledRetry_def failureUpdate_def
                 successUpdate_def requeueAfter_def emptyResult_def condition_defs
           split: prod.splits sum.splits option.splits if_splits)

text \<open>
  Claim C2: for attempts >= 1 \<open>calculateRetryInterval\<close> is
  min(5 minutes * 2^(attempts-1), 1 hour) and 5 minutes for attempts <= 0, and
  consequently the retry intervals after the 1st, 2nd, 3rd, ... failures are 5m, 10m,
  20m, 40m, 1h, 1h. The function does what the claim and its own comment say, but
  the code that schedules the retries is off by one. Here a declaration has one
  failure on record (\<open>SyncAttempts = 1\<close>) and its sync fails to store: this is the
  second failure in a row, the status then counts two attempts, and the retry is
  scheduled \<open>calculateRetryInterval 1\<close> = 5 minutes away, where the second value of
  the sequence, \<open>calculateRetryInterval 2\<close>, is 10 minutes.
\<close>

theorem PerformSync_second_failure_retries_after_5m:
  "SyncAttempts (Status (stored (exampleWorld\<lparr>stored := failedOnce\<rparr>))) = 1 \<and>
   snd (fst (PerformSync storeFailsEnv failedOnce (exampleWorld\<lparr>stored := failedOnce\<rparr>))) = None \<and>
   Phase (Status (stored (snd (snd (PerformSync storeFailsEnv failedOnce
     (exampleWorld\<lparr>stored := failedOnce\<rparr>)))))) = ''Failed'' \<and>
   SyncAttempts (Status (stored (snd (snd (PerformSync storeFailsEnv failedOnce
     (exampleWorld\<lparr>stored := failedOnce\<rparr>)))))) = 2 \<and>
   RequeueAfter (fst (fst (PerformSync storeFailsEnv failedOnce
     (exampleWorld\<lparr>stored := failedOnce\<rparr>)))) = 5 * Minute \<and>
   NextRetryTime (Status (stored (snd (snd (PerformSync storeFailsEnv failedOnce
     (exampleWorld\<lparr>stored := failedOnce\<rparr>)))))) = Some (timeNow storeFailsEnv + 5 * Minute) \<and>
   calculateRetryInterval 1 = 5 * Minute \<and>
   calculateRetryInterval 2 = 10 * Minute"
  by code_simp

section \<open>Properties of the reconciler\<close>





lemma finalizeMCPRegistry_effect:
  "finalizeMCPRegistry e obj w = (err, r, w') \<Longrightarrow>
     err = statusUpdateErr e (calls w) \<and>
     Finalizers (stored w') = Finalizers (stored w) \<and>
     DeletionTimestamp (stored w') = DeletionTimestamp (stored w) \<and>
     (err \<noteq> None \<longrightarrow> calls w' = calls w @ [CallStatusUpdate] \<and> storage w' = storage w \<and> stored w' = stored w) \<and>
     (err = None \<longrightarrow> calls w' = calls w @ [CallStatusUpdate, CallDelete] \<and> r = stored w' \<and>
        (storage w' = storage w \<or> deleteErr e (calls w @ [CallStatusUpdate]) = None))"
  by (auto simp: finalizeMCPRegistry_def client_defs Delete_def Let_def
           split: option.splits prod.splits if_splits)

text \<open>
  Claim C6 fails on the code. \<open>finalizeMCPRegistry\<close> logs an error of the storage
  deletion and continues, so \<open>Reconcile\<close> goes on to remove the finalizer. Here the
  storage manager's deletion fails: \<open>Reconcile\<close> returns no error, the finalizer is
  gone from the declaration, the declaration is deleted, and the storage is still
  there.
\<close>

theorem Reconcile_storage_error_counterexample:
  "deleteErr deleteFailsEnv [CallGet, CallStatusUpdate] =
     Some (ErrorString ''failed to delete storage ConfigMap'') \<and>
   calls (snd (Reconcile deleteFailsEnv deletingWorld)) =
     [CallGet, CallStatusUpdate, CallDelete, CallUpdate] \<and>
   snd (fst (Reconcile deleteFailsEnv deletingWorld)) = None \<and>
   Finalizers (stored (snd (Reconcile deleteFailsEnv deletingWorld))) = [] \<and>
   declarationDeleted (snd (Reconcile deleteFailsEnv deletingWorld)) \<and>
   storage (snd (Reconcile deleteFailsEnv deletingWorld)) = Some twoServerRegistry"
  by code_simp

text \<open>
  Claim C6, amended. During deletion of a declaration that carries the finalizer, the
  finalizer is removed only after \<open>finalizeMCPRegistry\<close> returned without error, that
  is after the Terminating status was written and the storage deletion was attempted.
  An error of the status write is propagated: \<open>Reconcile\<close> returns it, makes no
  further call, the finalizer stays attached and the declaration is not deleted. When
  the status write succeeds the storage deletion is called and, whatever it returns,
  the finalizer is removed by an update of the declaration; the error \<open>Reconcile\<close>
  returns is that of this update, and when the update fails the finalizer stays
  attached and the declaration is not deleted.
\<close>

theorem Reconcile_deletion:
  assumes "getErr e (calls w) = None"
    and "DeletionTimestamp (stored w) \<noteq> None"
    and "ContainsFinalizer (stored w) finalizerName"
  shows "(statusUpdateErr e (calls w @ [CallGet]) \<noteq> None \<longrightarrow>
            snd (fst (Reconcile e w)) = statusUpdateErr e (calls w @ [CallGet]) \<and>
            calls (snd (Reconcile e w)) = calls w @ [CallGet, CallStatusUpdate] \<and>
            ContainsFinalizer (stored (snd (Reconcile e w))) finalizerName \<and>
            \<not> declarationDeleted (snd (Reconcile e w))) \<and>
         (statusUpdateErr e (calls w @ [CallGet]) = None \<longrightarrow>
            calls (snd (Reconcile e w)) = calls w @ [CallGet, CallStatusUpdate, CallDelete, CallUpdate] \<and>
            snd (fst (Reconcile e w)) = updateErr e (calls w @ [CallGet, CallStatusUpdate, CallDelete]) \<and>
            (snd (fst (Reconcile e w)) = None \<longrightarrow>
               \<not> ContainsFinalizer (stored (snd (Reconcile e w))) finalizerName) \<and>
            (snd (fst (Reconcile e w)) \<noteq> None \<longrightarrow>
               ContainsFinalizer (stored (snd (Reconcile e w))) finalizerName \<and>
               \<not> declarationDeleted (snd (Reconcile e w))))"
proof -
  have g: "clientGet e zeroMCPRegistry w = (None, stored w, logCall CallGet w)"
    using assms(1) by (simp add: clientGet_def)
  obtain ferr r w2 where f: "finalizeMCPRegistry e (stored w) (logCall CallGet w) = (ferr, r, w2)"
    by (cases "finalizeMCPRegistry e (stored w) (logCall CallGet w)") auto
  have eff: "ferr = statusUpdateErr e (calls w @ [CallGet])"
    "Finalizers (stored w2) = Finalizers (stored w)"
    "DeletionTimestamp (stored w2) = DeletionTimestamp (stored w)"
    "ferr \<noteq> None \<longrightarrow> calls w2 = calls w @ [CallGet, CallStatusUpdate]"
    "ferr = None \<longrightarrow> calls w2 = calls w @ [CallGet, CallStatusUpdate, CallDelete] \<and> r = stored w2"
    using finalizeMCPRegistry_effect [OF f] by (simp_all add: logCall_def)
  have fin: "finalizerName \<in> set (Finalizers (stored w))"
    using assms(3) by (simp add: ContainsFinalizer_def)
  show ?thesis
  proof (cases ferr)
    case (Some err)
    then have "Reconcile e w = ((emptyResult, Some err), w2)"
      using assms(2,3) by (simp add: Reconcile_def g f)
    with Some eff fin show ?thesis
      by (auto simp: ContainsFinalizer_def declarationDeleted_def)
  next
    case None
    obtain uerr r3 w3 where u: "clientUpdate e (RemoveFinalizer r finalizerName) w2 = (uerr, r3, w3)"
      by (cases "clientUpdate e (RemoveFinalizer r finalizerName) w2") auto
    have R: "Reconcile e w = ((emptyResult, uerr), w3)"
      using assms(2,3) None u by (simp add: Reconcile_def g f split: option.splits)
    have ue: "uerr = updateErr e (calls w2)" "calls w3 = calls w2 @ [CallUpdate]"
      "uerr \<noteq> None \<longrightarrow> stored w3 = stored w2"
      "uerr = None \<longrightarrow> Finalizers (stored w3) = filter (\<lambda>x. x \<noteq> finalizerName) (Finalizers r)"
      using u by (auto simp: client_defs RemoveFinalizer_def Let_def split: option.splits)
    from None eff fin ue show ?thesis
      unfolding R
      by (auto simp: ContainsFinalizer_def declarationDeleted_def)
  qed
qed

theorem Reconcile_deletion_witness:
  "getErr statusWriteFailsEnv (calls deletingWorld) = None \<and>
   DeletionTimestamp (stored deletingWorld) = Some 500 \<and>
   ContainsFinalizer (stored deletingWorld) finalizerName \<and>
   snd (fst (Reconcile statusWriteFailsEnv deletingWorld)) =
     Some (StatusError 409 ''the object has been modified'') \<and>
   ContainsFinalizer (stored (snd (Reconcile statusWriteFailsEnv deletingWorld))) finalizerName \<and>
   calls (snd (Reconcile exampleEnv deletingWorld)) =
     [CallGet, CallStatusUpdate, CallDelete, CallUpdate] \<and>
   snd (fst (Reconcile exampleEnv deletingWorld)) = None"
proof -
  have g1: "getErr statusWriteFailsEnv (calls deletingWorld) = None"
    and g2: "getErr exampleEnv (calls deletingWorld) = None"
    by code_simp+
  have d: "DeletionTimestamp (stored deletingWorld) = Some 500"
    by code_simp
  have c: "ContainsFinalizer (stored deletingWorld) finalizerName"
    by code_simp
  have s1: "statusUpdateErr statusWriteFailsEnv (calls deletingWorld @ [CallGet]) =
              Some (StatusError 409 ''the object has been modified'')"
    and s2: "statusUpdateErr exampleEnv (calls deletingWorld @ [CallGet]) = None"
    and s3: "updateErr exampleEnv (calls deletingWorld @ [CallGet, CallStatusUpdate, CallDelete]) = None"
    and s4: "calls deletingWorld = []"
    by code_simp+
  have d': "DeletionTimestamp (stored deletingWorld) \<noteq> None"
    using d by simp
  show ?thesis
    using Reconcile_deletion [OF g1 d' c] Reconcile_deletion [OF g2 d' c] g1 d c s1 s2 s3 s4
    by simp
qed

section \<open>Properties of format detection\<close>

lemmas format_defs = RegistryFormatToolHive_def RegistryFormatUpstream_def

lemma detectUpstream_first_entry:
  "detectUpstream J data =
     (if firstEntryNamed J data then Inr ''upstream'' else Inl unknownFormat)"
  by (auto simp: detectUpstream_def firstEntryNamed_def named_def unknownFormat_def format_defs
           split: option.splits list.splits prod.splits)

lemma everyEntryNamed_first: "everyEntryNamed J data \<Longrightarrow> firstEntryNamed J data"
  by (auto simp: everyEntryNamed_def firstEntryNamed_def split: option.splits list.splits)

text \<open>
  Claim C8 fails on the code. \<open>DetectFormat\<close> looks only at the entry of the upstream
  map that its loop visits first. For the map with the entries \<open>alpha\<close> (which has a
  nested \<open>server.name\<close>) and \<open>beta\<close> (which has none), visited in this order, the payload
  is not canonical, not every entry is named, and the answer is \<open>upstream\<close> where the
  claim says an UnknownFormat error.
\<close>

theorem DetectFormat_mixed_map_counterexample:
  "mixedText \<noteq> [] \<and> \<not> canonicalShape tableJson mixedText \<and>
   UnmarshalUpstream tableJson mixedText =
     Some [(''alpha'', Some alphaUpstream), (''beta'', Some betaUpstream)] \<and>
   named (Some alphaUpstream) \<and> \<not> named (Some betaUpstream) \<and>
   \<not> everyEntryNamed tableJson mixedText \<and>
   DetectFormat tableJson mixedText = Inr ''upstream''"
  by code_simp

text \<open>
  Claim C8, amended. For every byte payload, detect returns an error for the empty
  payload; otherwise \<open>toolhive\<close> when the payload parses as the canonical shape with
  both version and servers present; otherwise \<open>upstream\<close> when the payload parses as a
  non-empty upstream map whose first visited entry is not nil and has a non-empty
  nested \<open>server.name\<close>; in all other cases an UnknownFormat error. In particular a
  non-canonical, non-empty upstream map in which every value has a non-empty nested
  \<open>server.name\<close> is detected as \<open>upstream\<close>.
\<close>

theorem DetectFormat_first_entry:
  "DetectFormat J data =
     (if data = [] then Inl (ErrorString ''cannot detect format of empty data'')
      else if canonicalShape J data then Inr ''toolhive''
      else if firstEntryNamed J data then Inr ''upstream''
      else Inl unknownFormat) \<and>
   (everyEntryNamed J data \<longrightarrow> firstEntryNamed J data) \<and>
   (data \<noteq> [] \<and> \<not> canonicalShape J data \<and> everyEntryNamed J data \<longrightarrow>
      DetectFormat J data = Inr ''upstream'')"
  using everyEntryNamed_first [of J data]
  by (auto simp: DetectFormat_def detectUpstream_first_entry canonicalShape_def format_defs
           split: option.splits)

theorem DetectFormat_first_entry_witness:
  "upstreamText \<noteq> [] \<and> \<not> canonicalShape tableJson upstreamText \<and>
   everyEntryNamed tableJson upstreamText \<and>
   DetectFormat tableJson upstreamText = Inr ''upstream'' \<and>
   DetectFormat tableJson canonicalText = Inr ''toolhive'' \<and>
   DetectFormat tableJson notJsonText = Inl unknownFormat \<and>
   DetectFormat tableJson [] = Inl (ErrorString ''cannot detect format of empty data'')"
proof -
  have a: "upstreamText \<noteq> []" "\<not> canonicalShape tableJson upstreamText"
    "everyEntryNamed tableJson upstreamText"
    by code_simp+
  have b: "canonicalText \<noteq> []" "canonicalShape tableJson canonicalText"
    by code_simp+
  have c: "notJsonText \<noteq> []" "\<not> canonicalShape tableJson notJsonText"
    "\<not> firstEntryNamed tableJson notJsonText"
    by code_simp+
  have u: "DetectFormat tableJson upstreamText = Inr ''upstream''"
    using DetectFormat_first_entry [of tableJson upstreamText] a by blast
  have t: "DetectFormat tableJson canonicalText = Inr ''toolhive''"
    using DetectFormat_first_entry [of tableJson canonicalText] b by simp
  have n: "DetectFormat tableJson notJsonText = Inl unknownFormat"
    using DetectFormat_first_entry [of tableJson notJsonText] c by simp
  have e: "DetectFormat tableJson [] = Inl (ErrorString ''cannot detect format of empty data'')"
    using DetectFormat_first_entry [of tableJson "[]"] by simp
  from a u t n e show ?thesis by simp
qed

section \<open>Properties of the ConfigMap source handler\<close>

lemma Validate_ok:
  assumes "fst (Validate source) = None"
  shows "\<exists>cm. SourceConfigMap (snd (Validate source)) = Some cm \<and> ConfigMapName cm \<noteq> [] \<and>
              ConfigMapKey cm \<noteq> []"
  using assms
  by (auto simp: Validate_def DefaultRegistryKey_def split: if_splits option.splits)

text \<open>
  Claim C9. For every declaration whose ConfigMap source passes the handler's
  validation (type \<open>configmap\<close>, a ConfigMap block with a name; \<open>cm\<close> is that block
  with the default key filled in, and the namespace is the block's or else the
  declaration's): \<open>Sync\<close> fails with a SourceNotFound error when the cluster answers
  NotFound for the referenced ConfigMap; it fails with a SourceNotFound error when
  the ConfigMap exists but has no data under the key; it fails with an InvalidData
  error when the bytes under the key are not valid JSON; and whenever it succeeds,
  the hash of its result is the hexadecimal encoding of the SHA-256 of the raw bytes
  under the key.
\<close>

theorem Sync_configmap_errors_and_hash:
  assumes "fst (Validate (Source (Spec registry))) = None"
    and "SourceConfigMap (snd (Validate (Source (Spec registry)))) = Some cm"
    and "namespace = (if ConfigMapNamespace cm = [] then Namespace registry else ConfigMapNamespace cm)"
  shows "(\<forall>err. getConfigMap cl (ConfigMapName cm) namespace = Inl err \<and> IsNotFound err \<longrightarrow>
            failsWith (Sync J L Sum256 cl registry) ErrSourceNotFound) \<and>
         (\<forall>c. getConfigMap cl (ConfigMapName cm) namespace = Inr c \<and> Data c (ConfigMapKey cm) = None \<longrightarrow>
            failsWith (Sync J L Sum256 cl registry) ErrSourceNotFound) \<and>
         (\<forall>c data. getConfigMap cl (ConfigMapName cm) namespace = Inr c \<and>
                   Data c (ConfigMapKey cm) = Some data \<and> \<not> valid J data \<longrightarrow>
            failsWith (Sync J L Sum256 cl registry) ErrInvalidData) \<and>
         (\<forall>result. Sync J L Sum256 cl registry = Inr result \<longrightarrow>
            (\<exists>c data. getConfigMap cl (ConfigMapName cm) namespace = Inr c \<and>
                      Data c (ConfigMapKey cm) = Some data \<and>
                      ResultHash result = EncodeToString (Sum256 data)))"
proof -
  obtain source where v: "Validate (Source (Spec registry)) = (None, source)"
    using assms(1) by (cases "Validate (Source (Spec registry))") auto
  then have s: "SourceConfigMap source = Some cm"
    using assms(2) by simp
  let ?ns = "if ConfigMapNamespace cm = [] then Namespace registry else ConfigMapNamespace cm"
  have ns: "namespace = ?ns" by (rule assms(3))
  have 1: "failsWith (Sync J L Sum256 cl registry) ErrSourceNotFound"
    if "getConfigMap cl (ConfigMapName cm) ?ns = Inl err" "IsNotFound err" for err
    using that by (simp add: Sync_def v s failsWith_def)
  have 2: "failsWith (Sync J L Sum256 cl registry) ErrSourceNotFound"
    if "getConfigMap cl (ConfigMapName cm) ?ns = Inr c" "Data c (ConfigMapKey cm) = None" for c
    using that by (simp add: Sync_def v s failsWith_def)
  have 3: "failsWith (Sync J L Sum256 cl registry) ErrInvalidData"
    if "getConfigMap cl (ConfigMapName cm) ?ns = Inr c" "Data c (ConfigMapKey cm) = Some data"
       "\<not> valid J data" for c data
    using that by (simp add: Sync_def v s failsWith_def UnmarshalRegistryData_def)
  have 4: "\<exists>c data. getConfigMap cl (ConfigMapName cm) ?ns = Inr c \<and>
                    Data c (ConfigMapKey cm) = Some data \<and>
                    ResultHash result = EncodeToString (Sum256 data)"
    if ok: "Sync J L Sum256 cl registry = Inr result" for result
  proof (cases "getConfigMap cl (ConfigMapName cm) ?ns")
    case (Inl err)
    with ok show ?thesis
      by (simp add: Sync_def v s split: if_splits)
  next
    case (Inr c)
    show ?thesis
    proof (cases "Data c (ConfigMapKey cm)")
      case None
      with ok Inr show ?thesis
        by (simp add: Sync_def v s)
    next
      case (Some data)
      show ?thesis
      proof (cases "UnmarshalRegistryData J data")
        case None
        with ok Inr Some show ?thesis
          by (simp add: Sync_def v s)
      next
        case d: (Some registryData)
        let ?target = "if SpecFormat (Spec registry) = [] then RegistryFormatToolHive
                       else SpecFormat (Spec registry)"
        let ?src = "case DetectFormat J data of Inl err \<Rightarrow> ?target | Inr detected \<Rightarrow> detected"
        have "ResultHash result = calculateHash Sum256 data"
        proof (cases "?src = ?target")
          case True
          with ok Inr Some d show ?thesis
            by (simp add: Sync_def v s Let_def) auto
        next
          case False
          with ok Inr Some d show ?thesis
            by (cases "Convert J L data ?src ?target") (auto simp: Sync_def v s Let_def)
        qed
        with Inr Some show ?thesis
          by (simp add: calculateHash_def)
      qed
    qed
  qed
  from 1 2 3 4 show ?thesis
    unfolding ns by blast
qed

theorem Sync_configmap_errors_and_hash_witness:
  "fst (Validate (Source (Spec (withConfigMapSource ''missing'' [])))) = None \<and>
   failsWith (Sync tableJson tableRegistrylib constantSum256 demoReader
                (withConfigMapSource ''missing'' [])) ErrSourceNotFound \<and>
   failsWith (Sync tableJson tableRegistrylib constantSum256 demoReader
                (withConfigMapSource ''demo-data'' ''nokey'')) ErrSourceNotFound \<and>
   failsWith (Sync tableJson tableRegistrylib constantSum256 demoReader
                (withConfigMapSource ''demo-data'' ''broken.json'')) ErrInvalidData \<and>
   (case Sync tableJson tableRegistrylib constantSum256 demoReader
           (withConfigMapSource ''demo-data'' []) of
      Inl err \<Rightarrow> False
    | Inr result \<Rightarrow> ResultHash result = EncodeToString (constantSum256 canonicalText))"
proof -
  let ?cm = "\<lparr>ConfigMapName = ''missing'', ConfigMapNamespace = [], ConfigMapKey = ''registry.json''\<rparr>"
  have v: "fst (Validate (Source (Spec (withConfigMapSource ''missing'' [])))) = None"
    by code_simp
  have s: "SourceConfigMap (snd (Validate (Source (Spec (withConfigMapSource ''missing'' []))))) =
             Some ?cm"
    by code_simp
  have n: "''default'' = (if ConfigMapNamespace ?cm = []
                          then Namespace (withConfigMapSource ''missing'' [])
                          else ConfigMapNamespace ?cm)"
    by code_simp
  have g: "getConfigMap demoReader (ConfigMapName ?cm) ''default'' =
             Inl (StatusError 404 ''configmaps not found'')"
    by (simp add: demoReader_def)
  have nf: "IsNotFound (StatusError 404 ''configmaps not found'')"
    by simp
  have a: "failsWith (Sync tableJson tableRegistrylib constantSum256 demoReader
                        (withConfigMapSource ''missing'' [])) ErrSourceNotFound"
    using Sync_configmap_errors_and_hash [OF v s n, of demoReader tableJson tableRegistrylib
            constantSum256, THEN conjunct1] g nf
    by blast
  have b: "failsWith (Sync tableJson tableRegistrylib constantSum256 demoReader
                        (withConfigMapSource ''demo-data'' ''nokey'')) ErrSourceNotFound"
    by code_simp
  have c: "failsWith (Sync tableJson tableRegistrylib constantSum256 demoReader
                        (withConfigMapSource ''demo-data'' ''broken.json'')) ErrInvalidData"
    by code_simp
  have d: "(case Sync tableJson tableRegistrylib constantSum256 demoReader
                   (withConfigMapSource ''demo-data'' []) of
              Inl err \<Rightarrow> False
            | Inr result \<Rightarrow> ResultHash result = EncodeToString (constantSum256 canonicalText))"
    by code_simp
  from v a b c d show ?thesis by simp
qed

section \<open>Properties of the registry API service\<close>

text \<open>
  Claim C5 fails on the code. \<open>handleReadiness\<close> reads the declaration and looks at
  nothing in it: a declaration that is retrievable and has no storage reference is
  answered with 200.
\<close>

theorem handleReadiness_without_storageRef_counterexample:
  "(case getMCPRegistry pendingReader (RegistryName demoConfig) (RegistryNamespace demoConfig) of
      Inl err \<Rightarrow> False
    | Inr registry \<Rightarrow> StorageRef (Status registry) = None) \<and>
   statusCode (handleReadiness demoConfig pendingReader) = 200"
  by code_simp

text \<open>
  Claim C5, amended. GET /readiness returns 200 if and only if the declaration is
  retrievable from the cluster, whatever its storage reference; in every other case
  (the read of the declaration fails) it returns 503.
\<close>

theorem handleReadiness_status:
  "statusCode (handleReadiness config cl) =
     (case getMCPRegistry cl (RegistryName config) (RegistryNamespace config) of
        Inl err \<Rightarrow> 503
      | Inr registry \<Rightarrow> 200) \<and>
   (statusCode (handleReadiness config cl) = 200) =
     (\<exists>registry. getMCPRegistry cl (RegistryName config) (RegistryNamespace config) = Inr registry) \<and>
   (statusCode (handleReadiness config cl) \<noteq> 200) =
     (statusCode (handleReadiness config cl) = 503)"
  by (auto simp: handleReadiness_def split: sum.splits)

theorem handleReadiness_status_witness:
  "statusCode (handleReadiness demoConfig demoReader) = 200 \<and>
   statusCode (handleReadiness (demoConfig\<lparr>RegistryName := ''other''\<rparr>) demoReader) = 503"
proof -
  have a: "(case getMCPRegistry demoReader (RegistryName demoConfig) (RegistryNamespace demoConfig) of
              Inl err \<Rightarrow> 503 | Inr registry \<Rightarrow> 200) = (200::nat)"
    by code_simp
  have b: "(case getMCPRegistry demoReader (RegistryName (demoConfig\<lparr>RegistryName := ''other''\<rparr>))
                   (RegistryNamespace (demoConfig\<lparr>RegistryName := ''other''\<rparr>)) of
              Inl err \<Rightarrow> 503 | Inr registry \<Rightarrow> 200) = (503::nat)"
    by code_simp
  show ?thesis
    using handleReadiness_status [of demoConfig demoReader, THEN conjunct1]
          handleReadiness_status [of "demoConfig\<lparr>RegistryName := ''other''\<rparr>" demoReader, THEN conjunct1]
          a b
    by simp
qed

text \<open>
  The list handler after a conversion to the upstream format: the converted bytes
  are a map from server names to envelopes, and the handler reads the servers from
  the key \<open>servers\<close> of the decoded map. Whenever the decoded map has no such key the
  answer is 200 with an empty servers map.
\<close>

lemma handleListServers_upstream_without_servers_key:
  assumes "getRegistryData config cl = Inr data"
    and "convertRegistryFormat J L data ''upstream'' = Inr converted"
    and "UnmarshalGeneric J converted = Some obj"
    and "''servers'' \<notin> set (map fst obj)"
  shows "handleListServers J L config cl ''upstream'' =
           \<lparr>statusCode = 200,
            responseBody = ServerListBody \<lparr>ListServers = [], ListCount = 0, ListFormat = ''upstream''\<rparr>\<rparr>"
proof -
  have "map_of obj ''servers'' = None"
    using assms(4) by (simp add: map_of_eq_None_iff)
  then show ?thesis
    using assms(1-3)
    by (simp add: handleListServers_def Let_def SupportedFormats_def format_defs)
qed

text \<open>
  Claim C4 fails on the code. The stored canonical data holds the server
  \<open>filesystem\<close>; it is detected as \<open>toolhive\<close> and converted to the upstream document
  whose only key is \<open>filesystem\<close>. The handler then looks for the key \<open>servers\<close> in that
  document, finds none, and answers 200 with an empty servers map and count 0. The
  same request without a format lists the server.
\<close>

theorem handleListServers_upstream_drops_servers:
  "getRegistryData demoConfig demoReader = Inr canonicalText \<and>
   UnmarshalRegistry tableJson canonicalText = Some oneServerRegistry \<and>
   map fst (case Servers oneServerRegistry of None \<Rightarrow> [] | Some entries \<Rightarrow> entries) = [''filesystem''] \<and>
   convertRegistryFormat tableJson tableRegistrylib canonicalText ''upstream'' = Inr upstreamText \<and>
   UnmarshalGeneric tableJson upstreamText = Some [(''filesystem'', filesystemEnvelopeJson)] \<and>
   handleListServers tableJson tableRegistrylib demoConfig demoReader ''upstream'' =
     \<lparr>statusCode = 200,
      responseBody = ServerListBody \<lparr>ListServers = [], ListCount = 0, ListFormat = ''upstream''\<rparr>\<rparr> \<and>
   handleListServers tableJson tableRegistrylib demoConfig demoReader [] =
     \<lparr>statusCode = 200,
      responseBody = ServerListBody \<lparr>ListServers = [(''filesystem'', filesystemJson)], ListCount = 1,
                                     ListFormat = ''toolhive''\<rparr>\<rparr>"
  by code_simp

end
